theory Spec2Isabelle
  imports Main "HOL-Library.List_Lexorder"
begin

section \<open>Python text\<close>

text \<open>
  A Python \<open>str\<close> is a sequence of Unicode code points; \<open>len\<close> and slicing count code
  points.  A code point is a natural number here, and a string a list of them.
  \<open>lit\<close> turns an ASCII literal into such a string.
\<close>

type_synonym pychar = nat
type_synonym pystr = "pychar list"

definition lit :: "string \<Rightarrow> pystr" where
  "lit s = map of_char s"

text \<open>
  \<open>str.isspace\<close> for one code point: the code points CPython treats as whitespace
  (the ones \<open>str.strip()\<close> without argument removes).
\<close>

definition py_isspace :: "pychar \<Rightarrow> bool" where
  "py_isspace c \<longleftrightarrow>
     (9 \<le> c \<and> c \<le> 13) \<or> (28 \<le> c \<and> c \<le> 32) \<or> c = 133 \<or> c = 160 \<or> c = 5760 \<or>
     (8192 \<le> c \<and> c \<le> 8202) \<or> c = 8232 \<or> c = 8233 \<or> c = 8239 \<or> c = 8287 \<or> c = 12288"

definition strip_while :: "(pychar \<Rightarrow> bool) \<Rightarrow> pystr \<Rightarrow> pystr" where
  "strip_while P s = rev (dropWhile P (rev (dropWhile P s)))"

text \<open>\<open>s.strip()\<close>: whitespace removed at both ends.\<close>

definition py_strip :: "pystr \<Rightarrow> pystr" where
  "py_strip s = strip_while py_isspace s"

text \<open>\<open>s.strip(chars)\<close>: every leading and trailing code point that occurs in \<open>chars\<close> removed.\<close>

definition py_strip_chars :: "pystr \<Rightarrow> pystr \<Rightarrow> pystr" where
  "py_strip_chars chars s = strip_while (\<lambda>c. c \<in> set chars) s"

text \<open>\<open>s.split(sep)\<close> for a separator of one code point; \<open>''.split(sep)\<close> is \<open>['']\<close>.\<close>

fun py_split :: "pychar \<Rightarrow> pystr \<Rightarrow> pystr list" where
  "py_split sep [] = [[]]"
| "py_split sep (c # cs) =
     (if c = sep then [] # py_split sep cs
      else (case py_split sep cs of
              [] \<Rightarrow> [[c]]
            | l # ls \<Rightarrow> (c # l) # ls))"

definition py_startswith :: "pystr \<Rightarrow> pystr \<Rightarrow> bool" where
  "py_startswith s p \<longleftrightarrow> take (length p) s = p"

definition py_endswith :: "pystr \<Rightarrow> pystr \<Rightarrow> bool" where
  "py_endswith s p \<longleftrightarrow> length p \<le> length s \<and> drop (length s - length p) s = p"

text \<open>\<open>sub in s\<close>.\<close>

fun py_contains :: "pystr \<Rightarrow> pystr \<Rightarrow> bool" where
  "py_contains sub [] = (sub = [])"
| "py_contains sub (c # cs) = (py_startswith (c # cs) sub \<or> py_contains sub cs)"

text \<open>
  \<open>s.replace(old, new)\<close>: every occurrence of \<open>old\<close>, found from left to right without
  overlap, is replaced.  With an empty \<open>old\<close> Python puts \<open>new\<close> before every code point
  and at the end.
\<close>

function py_replace_from :: "pystr \<Rightarrow> pystr \<Rightarrow> pystr \<Rightarrow> pystr" where
  "py_replace_from old new [] = []"
| "py_replace_from old new (c # cs) =
     (if old \<noteq> [] \<and> py_startswith (c # cs) old
      then new @ py_replace_from old new (drop (length old) (c # cs))
      else c # py_replace_from old new cs)"
  by pat_completeness auto
termination
  by (relation "measure (\<lambda>(old, new, s). length s)") (auto simp: neq_Nil_conv)

definition py_replace :: "pystr \<Rightarrow> pystr \<Rightarrow> pystr \<Rightarrow> pystr" where
  "py_replace old new s =
     (if old = [] then new @ concat (map (\<lambda>c. c # new) s)
      else py_replace_from old new s)"

text \<open>
  Case mapping.  \<open>str.lower\<close>, \<open>str.title\<close> follow the Unicode tables; the model maps the
  ASCII letters and leaves every other code point as it is, treating it as uncased.
  For \<open>'plotly' in s.lower()\<close> this loses nothing: the only code points that Unicode
  lower-cases to one of \<open>p l o t y\<close> are the ASCII capitals.  For \<open>str.title\<close> it is
  exact on file names whose letters are ASCII.
\<close>

definition is_ascii_upper :: "pychar \<Rightarrow> bool" where
  "is_ascii_upper c \<longleftrightarrow> 65 \<le> c \<and> c \<le> 90"

definition is_ascii_lower :: "pychar \<Rightarrow> bool" where
  "is_ascii_lower c \<longleftrightarrow> 97 \<le> c \<and> c \<le> 122"

definition lower_char :: "pychar \<Rightarrow> pychar" where
  "lower_char c = (if is_ascii_upper c then c + 32 else c)"

definition upper_char :: "pychar \<Rightarrow> pychar" where
  "upper_char c = (if is_ascii_lower c then c - 32 else c)"

definition py_lower :: "pystr \<Rightarrow> pystr" where
  "py_lower s = map lower_char s"

text \<open>
  \<open>str.title\<close>: a code point that follows a cased one is lower-cased, any other is
  title-cased.
\<close>

fun title_from :: "bool \<Rightarrow> pystr \<Rightarrow> pystr" where
  "title_from previous_is_cased [] = []"
| "title_from previous_is_cased (c # cs) =
     (if previous_is_cased then lower_char c else upper_char c)
       # title_from (is_ascii_upper c \<or> is_ascii_lower c) cs"

definition py_title :: "pystr \<Rightarrow> pystr" where
  "py_title s = title_from False s"

text \<open>\<open>sep.join(xs)\<close>.\<close>

fun py_join :: "pystr \<Rightarrow> pystr list \<Rightarrow> pystr" where
  "py_join sep [] = []"
| "py_join sep [x] = x"
| "py_join sep (x # y # ys) = x @ sep @ py_join sep (y # ys)"

text \<open>\<open>os.path.basename\<close> and \<open>os.path.join\<close> of two components, as \<open>posixpath\<close> has them.\<close>

definition basename :: "pystr \<Rightarrow> pystr" where
  "basename p = rev (takeWhile (\<lambda>c. c \<noteq> 47) (rev p))"

definition path_join :: "pystr \<Rightarrow> pystr \<Rightarrow> pystr" where
  "path_join a b =
     (if py_startswith b [47] then b
      else if a = [] \<or> py_endswith a [47] then a @ b
      else a @ [47] @ b)"

section \<open>Exceptions, notebooks and the file system\<close>

text \<open>
  An exception is a value.  The operating-system errors carry the file name, a failed
  attribute access or a failure of the notebook reader its message; \<open>exn_str\<close> is
  \<open>str(e)\<close>.  \<open>py_repr\<close> is \<open>repr\<close> of a string without quotes, backslashes or
  unprintable code points.
\<close>

datatype exn =
    FileNotFoundError pystr
  | IsADirectoryError pystr
  | NotADirectoryError pystr
  | AttributeError pystr
  | ReaderError pystr

definition py_repr :: "pystr \<Rightarrow> pystr" where
  "py_repr s = [39] @ s @ [39]"

fun exn_str :: "exn \<Rightarrow> pystr" where
  "exn_str (FileNotFoundError p) = lit ''[Errno 2] No such file or directory: '' @ py_repr p"
| "exn_str (IsADirectoryError p) = lit ''[Errno 21] Is a directory: '' @ py_repr p"
| "exn_str (NotADirectoryError p) = lit ''[Errno 20] Not a directory: '' @ py_repr p"
| "exn_str (AttributeError msg) = msg"
| "exn_str (ReaderError msg) = msg"

text \<open>
  What \<open>nbformat.read(f, as_version=4)\<close> returns: a node with a list \<open>cells\<close> of nodes.
  The reader reports a violated schema without raising, so a cell may lack an
  attribute (\<open>None\<close> here: reading it raises \<open>AttributeError\<close>) or hold a value that
  is not a string (\<open>PyOther\<close> with the name of its type: comparing it with a string
  is false, calling a string method on it raises \<open>AttributeError\<close>).
\<close>

datatype pyval = PyStr pystr | PyOther pystr

record cell =
  cell_type :: "pyval option"
  source :: "pyval option"

record notebook =
  cells :: "cell list"

definition get_attr :: "pystr \<Rightarrow> 'a option \<Rightarrow> exn + 'a" where
  "get_attr name v = (case v of None \<Rightarrow> Inl (AttributeError name) | Some x \<Rightarrow> Inr x)"

definition str_method :: "pystr \<Rightarrow> pyval \<Rightarrow> exn + pystr" where
  "str_method name v =
     (case v of
        PyStr s \<Rightarrow> Inr s
      | PyOther tn \<Rightarrow>
          Inl (AttributeError (py_repr tn @ lit '' object has no attribute '' @ py_repr name)))"

text \<open>
  The file system as the generator sees it: a path is a directory with its modification
  time (seconds), a file with its text and modification time, or absent.  The first
  binding of a path counts.
\<close>

datatype node = Dir nat | File pystr nat

type_synonym fs = "(pystr \<times> node) list"

definition exists :: "fs \<Rightarrow> pystr \<Rightarrow> bool" where
  "exists fs p \<longleftrightarrow> map_of fs p \<noteq> None"

definition open_read :: "fs \<Rightarrow> pystr \<Rightarrow> exn + pystr" where
  "open_read fs p =
     (case map_of fs p of
        None \<Rightarrow> Inl (FileNotFoundError p)
      | Some (Dir t) \<Rightarrow> Inl (IsADirectoryError p)
      | Some (File text t) \<Rightarrow> Inr text)"

text \<open>
  What the generator takes from libraries outside the repository: the notebook reader
  (from the text of a file to a notebook or the exception it raises) and the two
  \<open>strftime\<close> formats of a time in seconds, \<open>%Y-%m-%d\<close> and \<open>%Y-%m-%d %H:%M\<close>, in the
  local time zone; and the clock: \<open>now k\<close> is the time at the \<open>k\<close>-th reading.
\<close>

record env =
  nbformat_read :: "pystr \<Rightarrow> exn + notebook"
  strftime_date :: "nat \<Rightarrow> pystr"
  strftime_minute :: "nat \<Rightarrow> pystr"
  now :: "nat \<Rightarrow> nat"

text \<open>\<open>with open(notebook_path, 'r', encoding='utf-8') as f: nb = nbformat.read(f, as_version=4)\<close>\<close>

definition read_notebook :: "env \<Rightarrow> fs \<Rightarrow> pystr \<Rightarrow> exn + notebook" where
  "read_notebook E fs notebook_path =
     (case open_read fs notebook_path of
        Inl e \<Rightarrow> Inl e
      | Inr text \<Rightarrow> nbformat_read E text)"

section \<open>extract_notebook_metadata\<close>

record metadata =
  title :: pystr
  description :: pystr
  has_plotly :: bool
  cell_count :: int
  markdown_cells :: int
  code_cells :: int

text \<open>\<open>sum(1 for cell in nb.cells if cell.cell_type == t)\<close>\<close>

fun count_cells_of_type :: "pystr \<Rightarrow> cell list \<Rightarrow> exn + int" where
  "count_cells_of_type t [] = Inr 0"
| "count_cells_of_type t (c # cs) =
     (case get_attr (lit ''cell_type'') (cell_type c) of
        Inl e \<Rightarrow> Inl e
      | Inr v \<Rightarrow>
          (case count_cells_of_type t cs of
             Inl e \<Rightarrow> Inl e
           | Inr n \<Rightarrow> Inr ((if v = PyStr t then 1 else 0) + n)))"

definition heading :: "pystr \<Rightarrow> bool" where
  "heading line \<longleftrightarrow> py_startswith line (lit ''#'')"

text \<open>
  The body of the title loop for the first markdown cell whose stripped text is not
  empty (lines 77 to 85); \<open>src\<close> is \<open>cell.source\<close>.
\<close>

definition title_and_description :: "pystr \<Rightarrow> metadata \<Rightarrow> metadata" where
  "title_and_description src m =
     (let lines = py_split 10 (py_strip src);
          m1 = (case find heading lines of
                  None \<Rightarrow> m
                | Some line \<Rightarrow> m\<lparr>title := py_strip (py_strip_chars (lit ''#'') line)\<rparr>);
          remaining_lines = filter (\<lambda>line. \<not> heading line \<and> py_strip line \<noteq> []) lines
      in if remaining_lines \<noteq> []
         then m1\<lparr>description :=
                   (if length (hd remaining_lines) > 100
                    then take 100 (hd remaining_lines) @ lit ''...''
                    else hd remaining_lines)\<rparr>
         else m1)"

text \<open>The title loop (lines 75 to 86): it ends at the first qualifying cell.\<close>

fun extract_title :: "cell list \<Rightarrow> metadata \<Rightarrow> exn + metadata" where
  "extract_title [] m = Inr m"
| "extract_title (c # cs) m =
     (case get_attr (lit ''cell_type'') (cell_type c) of
        Inl e \<Rightarrow> Inl e
      | Inr t \<Rightarrow>
          if t \<noteq> PyStr (lit ''markdown'') then extract_title cs m
          else (case get_attr (lit ''source'') (source c) of
                  Inl e \<Rightarrow> Inl e
                | Inr v \<Rightarrow>
                    (case str_method (lit ''strip'') v of
                       Inl e \<Rightarrow> Inl e
                     | Inr src \<Rightarrow>
                         if py_strip src = [] then extract_title cs m
                         else Inr (title_and_description src m))))"

text \<open>The Plotly loop (lines 89 to 92): it ends at the first match.\<close>

fun check_plotly :: "cell list \<Rightarrow> metadata \<Rightarrow> exn + metadata" where
  "check_plotly [] m = Inr m"
| "check_plotly (c # cs) m =
     (case get_attr (lit ''cell_type'') (cell_type c) of
        Inl e \<Rightarrow> Inl e
      | Inr t \<Rightarrow>
          if t \<noteq> PyStr (lit ''code'') then check_plotly cs m
          else (case get_attr (lit ''source'') (source c) of
                  Inl e \<Rightarrow> Inl e
                | Inr v \<Rightarrow>
                    (case str_method (lit ''lower'') v of
                       Inl e \<Rightarrow> Inl e
                     | Inr src \<Rightarrow>
                         if py_contains (lit ''plotly'') (py_lower src)
                         then Inr (m\<lparr>has_plotly := True\<rparr>)
                         else check_plotly cs m)))"

text \<open>
  The statements of the \<open>try\<close> block after the read, in order.  Each either raises and
  leaves the record as it was, or returns the record updated.
\<close>

definition set_cell_count :: "notebook \<Rightarrow> metadata \<Rightarrow> exn + metadata" where
  "set_cell_count nb m = Inr (m\<lparr>cell_count := int (length (cells nb))\<rparr>)"

definition set_code_cells :: "notebook \<Rightarrow> metadata \<Rightarrow> exn + metadata" where
  "set_code_cells nb m =
     (case count_cells_of_type (lit ''code'') (cells nb) of
        Inl e \<Rightarrow> Inl e
      | Inr n \<Rightarrow> Inr (m\<lparr>code_cells := n\<rparr>))"

definition set_markdown_cells :: "notebook \<Rightarrow> metadata \<Rightarrow> exn + metadata" where
  "set_markdown_cells nb m =
     (case count_cells_of_type (lit ''markdown'') (cells nb) of
        Inl e \<Rightarrow> Inl e
      | Inr n \<Rightarrow> Inr (m\<lparr>markdown_cells := n\<rparr>))"

definition try_block :: "notebook \<Rightarrow> (metadata \<Rightarrow> exn + metadata) list" where
  "try_block nb =
     [set_cell_count nb, set_code_cells nb, set_markdown_cells nb,
      extract_title (cells nb), check_plotly (cells nb)]"

text \<open>
  Running statements on the mutable record: the first exception ends the run, and what
  the earlier statements stored stays.
\<close>

fun run_stmts :: "(metadata \<Rightarrow> exn + metadata) list \<Rightarrow> metadata \<Rightarrow> metadata \<times> exn option" where
  "run_stmts [] m = (m, None)"
| "run_stmts (s # ss) m =
     (case s m of
        Inl e \<Rightarrow> (m, Some e)
      | Inr m' \<Rightarrow> run_stmts ss m')"

definition default_title :: "pystr \<Rightarrow> pystr" where
  "default_title notebook_path =
     py_title (py_replace (lit ''_'') (lit '' '')
       (py_replace (lit ''.ipynb'') [] (basename notebook_path)))"

definition default_metadata :: "pystr \<Rightarrow> metadata" where
  "default_metadata notebook_path =
     \<lparr>title = default_title notebook_path, description = [], has_plotly = False,
      cell_count = 0, markdown_cells = 0, code_cells = 0\<rparr>"

definition read_warning :: "pystr \<Rightarrow> exn \<Rightarrow> pystr" where
  "read_warning notebook_path e =
     lit ''Warning: Could not read notebook '' @ notebook_path @ lit '': '' @ exn_str e"

text \<open>
  The function: what it gives its caller (\<open>Inl\<close> an exception that leaves it, \<open>Inr\<close>
  the record it returns) and the lines it prints.
\<close>

definition extract_notebook_metadata ::
  "env \<Rightarrow> fs \<Rightarrow> pystr \<Rightarrow> (exn + metadata) \<times> pystr list" where
  "extract_notebook_metadata E fs notebook_path =
     (let metadata = default_metadata notebook_path
      in case read_notebook E fs notebook_path of
           Inl e \<Rightarrow> (Inr metadata, [read_warning notebook_path e])
         | Inr nb \<Rightarrow>
             (case run_stmts (try_block nb) metadata of
                (m, None) \<Rightarrow> (Inr m, [])
              | (m, Some e) \<Rightarrow> (Inr m, [read_warning notebook_path e])))"

section \<open>The wording of the specification, for comparison\<close>






section \<open>Notebooks and an environment for the examples\<close>

text \<open>
  Cells of the three kinds, a reader that knows one file text (\<open>{nb}\<close>, which it reads
  as the given notebook) and fails on every other, a clock that counts its readings,
  and a few small notebooks.
\<close>

definition markdown_cell :: "pystr \<Rightarrow> cell" where
  "markdown_cell s = \<lparr>cell_type = Some (PyStr (lit ''markdown'')), source = Some (PyStr s)\<rparr>"

definition code_cell :: "pystr \<Rightarrow> cell" where
  "code_cell s = \<lparr>cell_type = Some (PyStr (lit ''code'')), source = Some (PyStr s)\<rparr>"

definition raw_cell :: "pystr \<Rightarrow> cell" where
  "raw_cell s = \<lparr>cell_type = Some (PyStr (lit ''raw'')), source = Some (PyStr s)\<rparr>"

definition demo_env :: "notebook \<Rightarrow> env" where
  "demo_env nb =
     \<lparr>nbformat_read = (\<lambda>text. if text = lit ''{nb}'' then Inr nb
                               else Inl (ReaderError (lit ''not JSON''))),
      strftime_date = (\<lambda>t. lit ''2024-01-01''),
      strftime_minute = (\<lambda>t. lit ''2024-01-01 00:0'' @ [48 + t]),
      now = (\<lambda>k. k)\<rparr>"

definition demo_fs :: fs where
  "demo_fs = [(lit ''n/a_b.ipynb'', File (lit ''{nb}'') 0), (lit ''n/bad.ipynb'', File (lit ''?'') 0)]"

definition nb_partial :: notebook where
  "nb_partial =
     \<lparr>cells = [\<lparr>cell_type = Some (PyStr (lit ''markdown'')), source = None\<rparr>,
               code_cell (lit ''import plotly'')]\<rparr>"

definition nb_three :: notebook where
  "nb_three = \<lparr>cells = [markdown_cell (lit ''# T''), code_cell (lit ''x = 1''), raw_cell (lit ''r'')]\<rparr>"




definition nb_foo_bar :: notebook where
  "nb_foo_bar =
     \<lparr>cells = [code_cell (lit ''import Plotly.express as px''),
               markdown_cell (lit '' ''),
               markdown_cell (lit ''# Foo Bar'' @ [10] @ lit ''About sales.''),
               markdown_cell (lit ''# Later''),
               \<lparr>cell_type = Some (PyStr (lit ''code'')), source = None\<rparr>]\<rparr>"

section \<open>The README generator\<close>

text \<open>\<open>str(n)\<close> for a count.\<close>

function str_of_nat :: "nat \<Rightarrow> pystr" where
  "str_of_nat n = (if n < 10 then [48 + n] else str_of_nat (n div 10) @ [48 + n mod 10])"
  by pat_completeness auto
termination
  by (relation "measure (\<lambda>n. n)") auto

declare str_of_nat.simps [simp del]

text \<open>
  \<open>folder_info\<close>: a dictionary in the order it is written, from a folder key to its
  title, description and objectives.
\<close>

record folder_descriptor =
  folder_title :: pystr
  folder_description :: pystr
  objectives :: "pystr list"

definition folder_info :: "(pystr \<times> folder_descriptor) list" where
  "folder_info =
     [(lit ''exploratory_analysis'',
       \<lparr>folder_title = [129517] @ lit '' Exploratory Analysis'',
        folder_description = lit ''Initial data exploration and feature engineering using retail sales time series data.'',
        objectives =
          [lit ''Perform comprehensive data quality checks and profiling'',
           lit ''Identify temporal patterns, trends, and seasonality'',
           lit ''Engineer features for time series forecasting models'']\<rparr>),
      (lit ''model_training'',
       \<lparr>folder_title = [128736, 65039] @ lit '' Model Training'',
        folder_description = lit ''Building and refining time series forecasting models using statistical and ML techniques.'',
        objectives =
          [lit ''Train Prophet and other forecasting models'',
           lit ''Optimize hyperparameters for best performance'',
           lit ''Implement cross-validation for time series data'']\<rparr>),
      (lit ''model_evaluation'',
       \<lparr>folder_title = [128202] @ lit '' Model Evaluation'',
        folder_description = lit ''Comprehensive model assessment using forecasting metrics and diagnostic analysis.'',
        objectives =
          [lit ''Compare models using MAPE, RMSE, and other forecasting metrics'',
           lit ''Analyze residuals and forecast accuracy patterns'',
           lit ''Select optimal model for production deployment'']\<rparr>),
      (lit ''results_visualization'',
       \<lparr>folder_title = [128200] @ lit '' Results Visualization'',
        folder_description = lit ''Interactive visualizations and dashboards for model results and business insights.'',
        objectives =
          [lit ''Create interactive Plotly dashboards for stakeholders'',
           lit ''Visualize forecast results and confidence intervals'',
           lit ''Generate business-ready reports and presentations'']\<rparr>)]"

text \<open>
  The world the generator runs in: the file system, what has been printed (one entry
  for each \<open>print\<close>), and how often the clock has been read.  A procedure gives the
  world it leaves, with the exception that ended it if one did.
\<close>

record world =
  files :: fs
  stdout :: "pystr list"
  ticks :: nat

definition print :: "pystr \<Rightarrow> world \<Rightarrow> world" where
  "print line w = w\<lparr>stdout := stdout w @ [line]\<rparr>"

text \<open>
  \<open>os.listdir\<close>: the names of the entries of a directory, each once; \<open>entry_name d p\<close> is
  the name under which the path \<open>p\<close> is an entry of \<open>d\<close> (so that \<open>os.path.join(d, name)\<close>
  is \<open>p\<close>).
\<close>

definition entry_name :: "pystr \<Rightarrow> pystr \<Rightarrow> pystr option" where
  "entry_name d p =
     (let pre = (if d = [] \<or> py_endswith d [47] then d else d @ [47]);
          name = drop (length pre) p
      in if py_startswith p pre \<and> name \<noteq> [] \<and> 47 \<notin> set name then Some name else None)"

definition listdir :: "fs \<Rightarrow> pystr \<Rightarrow> exn + pystr list" where
  "listdir fs d =
     (case map_of fs d of
        None \<Rightarrow> Inl (FileNotFoundError d)
      | Some (File text t) \<Rightarrow> Inl (NotADirectoryError d)
      | Some (Dir t) \<Rightarrow> Inr (remdups (List.map_filter (entry_name d) (map fst fs))))"

definition getmtime :: "fs \<Rightarrow> pystr \<Rightarrow> exn + nat" where
  "getmtime fs p =
     (case map_of fs p of
        None \<Rightarrow> Inl (FileNotFoundError p)
      | Some (Dir t) \<Rightarrow> Inr t
      | Some (File text t) \<Rightarrow> Inr t)"

text \<open>
  \<open>with open(p, 'w', encoding='utf-8') as f: f.write(text)\<close> at time \<open>t\<close>: the file is
  created or replaced; a directory at \<open>p\<close> makes \<open>open\<close> raise.  The directory the
  file goes into is taken to exist: the generator writes into a directory it has just
  listed and into the working directory.
\<close>

definition open_write :: "fs \<Rightarrow> pystr \<Rightarrow> pystr \<Rightarrow> nat \<Rightarrow> exn + fs" where
  "open_write fs p text t =
     (case map_of fs p of
        Some (Dir t') \<Rightarrow> Inl (IsADirectoryError p)
      | _ \<Rightarrow> Inr ((p, File text t) # filter (\<lambda>(q, n). q \<noteq> p) fs))"

definition generate_notebook_links :: "pystr \<Rightarrow> pystr \<Rightarrow> pystr \<times> pystr" where
  "generate_notebook_links notebook_file folder =
     (let base_name = py_replace (lit ''.ipynb'') [] notebook_file;
          github_link = lit ''notebooks/'' @ folder @ lit ''/'' @ notebook_file;
          html_link = lit ''docs/'' @ base_name @ lit ''.html''
      in (github_link, html_link))"

subsection \<open>generate_folder_readme\<close>

definition view_options_of :: "fs \<Rightarrow> pystr \<Rightarrow> pystr \<Rightarrow> pystr \<Rightarrow> bool \<Rightarrow> pystr" where
  "view_options_of fs notebook_file github_link html_link plotly =
     (let v0 = lit ''['' @ [128211] @ lit '' Code]('' @ github_link @ lit '')'';
          v1 = (if exists fs (lit ''docs/'' @ py_replace (lit ''.ipynb'') (lit ''.html'') notebook_file)
                then v0 @ lit '' '' @ [8226] @ lit '' ['' @ [127760] @ lit '' HTML]('' @ html_link @ lit '')'' else v0)
      in if plotly then v1 @ lit '' '' @ [128202] else v1)"

definition table_row :: "metadata \<Rightarrow> pystr \<Rightarrow> pystr \<Rightarrow> pystr" where
  "table_row metadata view_options modified_date =
     lit ''| **'' @ title metadata @ lit ''** | ''
       @ (if description metadata \<noteq> [] then description metadata else lit ''Analysis notebook'')
       @ lit '' | '' @ view_options @ lit '' | '' @ modified_date @ lit '' |''"

text \<open>
  The loop over the notebook files (lines 134 to 154): the rows of the table, in the
  order of the files; \<open>notebooks_found\<close> is their number.
\<close>

fun notebook_rows :: "env \<Rightarrow> pystr \<Rightarrow> pystr \<Rightarrow> pystr list \<Rightarrow> world \<Rightarrow> (exn + pystr list) \<times> world" where
  "notebook_rows E folder_path folder_key [] w = (Inr [], w)"
| "notebook_rows E folder_path folder_key (notebook_file # rest) w =
     (let notebook_path = path_join folder_path notebook_file;
          (r, out) = extract_notebook_metadata E (files w) notebook_path;
          w1 = w\<lparr>stdout := stdout w @ out\<rparr>
      in case r of
           Inl e \<Rightarrow> (Inl e, w1)
         | Inr metadata \<Rightarrow>
             (let (github_link, html_link) = generate_notebook_links notebook_file folder_key
              in case getmtime (files w1) notebook_path of
                   Inl e \<Rightarrow> (Inl e, w1)
                 | Inr t \<Rightarrow>
                     (let modified_date = strftime_date E t;
                          view_options = view_options_of (files w1) notebook_file github_link html_link
                                           (has_plotly metadata);
                          row = table_row metadata view_options modified_date
                      in case notebook_rows E folder_path folder_key rest w1 of
                           (Inl e, w2) \<Rightarrow> (Inl e, w2)
                         | (Inr rows, w2) \<Rightarrow> (Inr (row # rows), w2))))"

text \<open>The lines of the document before the footer, and the footer line.\<close>

definition folder_readme_body :: "folder_descriptor \<Rightarrow> pystr list \<Rightarrow> pystr list" where
  "folder_readme_body info rows =
     [lit ''# '' @ folder_title info, [], folder_description info, [],
      lit ''## '' @ [128218] @ lit '' Notebooks'', [],
      lit ''| Notebook | Description | View Options | Last Updated |'',
      lit ''|----------|-------------|--------------|--------------|'']
     @ rows
     @ (if length rows = 0 then [lit ''| *No notebooks yet* | | | |''] else [])
     @ [[], lit ''## '' @ [127919] @ lit '' Key Objectives'', []]
     @ map (\<lambda>objective. lit ''- '' @ objective) (objectives info)
     @ [[], lit ''## '' @ [128279] @ lit '' Navigation'', [],
        lit ''- ['' @ [8592] @ lit '' Back to Main Project](../README.md)'',
        lit ''- ['' @ [128202] @ lit '' Interactive Results](../docs/) - HTML versions with perfect Plotly rendering'',
        [], lit ''---'']"

definition folder_footer :: "pystr \<Rightarrow> pystr" where
  "folder_footer stamp = lit ''*Generated on '' @ stamp @ lit ''*''"

definition generate_folder_readme :: "env \<Rightarrow> pystr \<Rightarrow> pystr \<Rightarrow> world \<Rightarrow> world \<times> exn option" where
  "generate_folder_readme E folder_path folder_key w =
     (case map_of folder_info folder_key of
        None \<Rightarrow> (print (lit ''Warning: No info found for folder '' @ folder_key) w, None)
      | Some info \<Rightarrow>
          (case listdir (files w) folder_path of
             Inl e \<Rightarrow> (w, Some e)
           | Inr names \<Rightarrow>
               (let notebook_files = sort (filter (\<lambda>f. py_endswith f (lit ''.ipynb'')) names)
                in case notebook_rows E folder_path folder_key notebook_files w of
                     (Inl e, w1) \<Rightarrow> (w1, Some e)
                   | (Inr rows, w1) \<Rightarrow>
                       (let notebooks_found = length rows;
                            stamp = strftime_minute E (now E (ticks w1));
                            w2 = w1\<lparr>ticks := Suc (ticks w1)\<rparr>;
                            readme_lines = folder_readme_body info rows @ [folder_footer stamp];
                            readme_path = path_join folder_path (lit ''README.md'')
                        in case open_write (files w2) readme_path (py_join [10] readme_lines)
                                  (now E (ticks w2)) of
                             Inl e \<Rightarrow> (w2, Some e)
                           | Inr fs' \<Rightarrow>
                               (print ([10003] @ lit '' Generated README for '' @ folder_key @ lit '' ('' @ str_of_nat notebooks_found
                                         @ lit '' notebooks)'')
                                  (w2\<lparr>files := fs'\<rparr>), None)))))"

subsection \<open>generate_main_readme\<close>

text \<open>The loop over the notebooks of one folder (lines 209 to 215).\<close>

fun quick_links :: "env \<Rightarrow> pystr \<Rightarrow> pystr list \<Rightarrow> world \<Rightarrow> (exn + pystr list) \<times> world" where
  "quick_links E folder_path [] w = (Inr [], w)"
| "quick_links E folder_path (notebook_file # rest) w =
     (let notebook_path = path_join folder_path notebook_file;
          (r, out) = extract_notebook_metadata E (files w) notebook_path;
          w1 = w\<lparr>stdout := stdout w @ out\<rparr>
      in case r of
           Inl e \<Rightarrow> (Inl e, w1)
         | Inr metadata \<Rightarrow>
             (let html_file = py_replace (lit ''.ipynb'') (lit ''.html'') notebook_file;
                  links = (if exists (files w1) (lit ''docs/'' @ html_file)
                           then [lit ''- ['' @ [128202] @ lit '' '' @ title metadata @ lit ''](docs/'' @ html_file @ lit '')'']
                           else [])
              in case quick_links E folder_path rest w1 of
                   (Inl e, w2) \<Rightarrow> (Inl e, w2)
                 | (Inr others, w2) \<Rightarrow> (Inr (links @ others), w2)))"

text \<open>The first loop over \<open>folder_info\<close> (lines 202 to 217).\<close>

fun quick_access :: "env \<Rightarrow> (pystr \<times> folder_descriptor) list \<Rightarrow> world \<Rightarrow> (exn + pystr list) \<times> world" where
  "quick_access E [] w = (Inr [], w)"
| "quick_access E ((folder_key, info) # rest) w =
     (let folder_path = path_join (lit ''notebooks'') folder_key
      in if exists (files w) folder_path
         then (case listdir (files w) folder_path of
                 Inl e \<Rightarrow> (Inl e, w)
               | Inr names \<Rightarrow>
                   (let notebook_files = filter (\<lambda>f. py_endswith f (lit ''.ipynb'')) names
                    in case quick_links E folder_path (sort notebook_files) w of
                         (Inl e, w1) \<Rightarrow> (Inl e, w1)
                       | (Inr links, w1) \<Rightarrow>
                           (case quick_access E rest w1 of
                              (Inl e, w2) \<Rightarrow> (Inl e, w2)
                            | (Inr others, w2) \<Rightarrow>
                                (Inr ([lit ''### '' @ folder_title info] @ links @ [[]] @ others), w2))))
         else quick_access E rest w)"

text \<open>The second loop over \<open>folder_info\<close> (lines 227 to 233).\<close>

fun technical_notebooks :: "fs \<Rightarrow> (pystr \<times> folder_descriptor) list \<Rightarrow> pystr list" where
  "technical_notebooks fs [] = []"
| "technical_notebooks fs ((folder_key, info) # rest) =
     (if exists fs (path_join (lit ''notebooks'') folder_key)
      then [lit ''### ['' @ folder_title info @ lit ''](notebooks/'' @ folder_key @ lit ''/)'',
            folder_description info, []]
      else [])
     @ technical_notebooks fs rest"

definition main_readme_body :: "pystr list \<Rightarrow> pystr list \<Rightarrow> pystr list" where
  "main_readme_body quick technical =
     [lit ''# '' @ [128202] @ lit '' Time Series Analysis - Notebook Overview'', [],
      lit ''Auto-generated overview of all analysis notebooks in this project.'', [],
      lit ''## '' @ [127919] @ lit '' Quick Access - Interactive Results'', [],
      lit ''*Perfect for presentations and stakeholders - all plots are interactive:*'', []]
     @ quick
     @ [lit ''## '' @ [128104, 8205, 128187] @ lit '' Technical Notebooks'', [],
        lit ''*For developers and data scientists:*'', []]
     @ technical
     @ [lit ''---'']"

definition main_footer :: "pystr \<Rightarrow> pystr" where
  "main_footer stamp = lit ''*Auto-generated on '' @ stamp @ lit '' | Run `python generate_readme.py` to update*''"

definition generate_main_readme :: "env \<Rightarrow> world \<Rightarrow> world \<times> exn option" where
  "generate_main_readme E w =
     (case quick_access E folder_info w of
        (Inl e, w1) \<Rightarrow> (w1, Some e)
      | (Inr quick, w1) \<Rightarrow>
          (let technical = technical_notebooks (files w1) folder_info;
               stamp = strftime_minute E (now E (ticks w1));
               w2 = w1\<lparr>ticks := Suc (ticks w1)\<rparr>;
               readme_lines = main_readme_body quick technical @ [main_footer stamp]
           in case open_write (files w2) (lit ''NOTEBOOKS_README.md'') (py_join [10] readme_lines)
                     (now E (ticks w2)) of
                Inl e \<Rightarrow> (w2, Some e)
              | Inr fs' \<Rightarrow> (print ([10003] @ lit '' Generated main notebooks README'') (w2\<lparr>files := fs'\<rparr>), None)))"

subsection \<open>main\<close>

text \<open>The loop over the folders (lines 258 to 264); the count is \<open>folders_processed\<close>.\<close>

fun process_folders :: "env \<Rightarrow> pystr \<Rightarrow> (pystr \<times> folder_descriptor) list \<Rightarrow> nat \<Rightarrow> world \<Rightarrow> (exn + nat) \<times> world" where
  "process_folders E base_notebooks_dir [] folders_processed w = (Inr folders_processed, w)"
| "process_folders E base_notebooks_dir ((folder_key, info) # rest) folders_processed w =
     (let folder_path = path_join base_notebooks_dir folder_key
      in if exists (files w) folder_path
         then (case generate_folder_readme E folder_path folder_key w of
                 (w1, Some e) \<Rightarrow> (Inl e, w1)
               | (w1, None) \<Rightarrow> process_folders E base_notebooks_dir rest (folders_processed + 1) w1)
         else process_folders E base_notebooks_dir rest folders_processed
                (print ([9888, 65039] @ lit ''  Folder not found: '' @ folder_path) w))"

text \<open>The last loop (lines 272 to 275).\<close>

fun print_created :: "pystr \<Rightarrow> (pystr \<times> folder_descriptor) list \<Rightarrow> world \<Rightarrow> world" where
  "print_created base_notebooks_dir [] w = w"
| "print_created base_notebooks_dir ((folder_key, info) # rest) w =
     print_created base_notebooks_dir rest
       (if exists (files w) (path_join base_notebooks_dir folder_key)
        then print (lit ''   - notebooks/'' @ folder_key @ lit ''/README.md'') w
        else w)"

text \<open>
  \<open>main\<close> run as the script: the world it leaves and the exit status of the process,
  which is 1 for \<open>sys.exit(1)\<close> and for an exception nothing catches, 0 when \<open>main\<close>
  returns.
\<close>

definition main :: "env \<Rightarrow> world \<Rightarrow> world \<times> int" where
  "main E w =
     (let w0 = print ([128640] @ lit '' Generating README files for notebook directories...'') w;
          base_notebooks_dir = lit ''notebooks''
      in if \<not> exists (files w0) base_notebooks_dir
         then (print ([10060] @ lit '' Error: '' @ base_notebooks_dir @ lit '' directory not found!'') w0, 1)
         else (case process_folders E base_notebooks_dir folder_info 0 w0 of
                 (Inl e, w1) \<Rightarrow> (w1, 1)
               | (Inr folders_processed, w1) \<Rightarrow>
                   (case generate_main_readme E w1 of
                      (w2, Some e) \<Rightarrow> (w2, 1)
                    | (w2, None) \<Rightarrow>
                        (print_created base_notebooks_dir folder_info
                           (print (lit ''   - NOTEBOOKS_README.md (main overview)'')
                              (print ([128221] @ lit '' Files created:'')
                                 (print ([10, 9989] @ lit '' Complete! Generated README files for '' @ str_of_nat folders_processed @ lit '' folders.'') w2))),
                         0))))"

section \<open>Worlds for the examples\<close>

text \<open>
  A world with the base directory only, one where a regular file takes the place of a
  folder, and the warnings \<open>main\<close> prints when no folder exists.
\<close>

definition world_base_only :: world where
  "world_base_only = \<lparr>files = [(lit ''notebooks'', Dir 0)], stdout = [], ticks = 0\<rparr>"


definition folder_warnings :: "pystr list" where
  "folder_warnings =
     [[9888, 65039] @ lit ''  Folder not found: '' @ lit ''notebooks/exploratory_analysis'',
      [9888, 65039] @ lit ''  Folder not found: '' @ lit ''notebooks/model_training'',
      [9888, 65039] @ lit ''  Folder not found: '' @ lit ''notebooks/model_evaluation'',
      [9888, 65039] @ lit ''  Folder not found: '' @ lit ''notebooks/results_visualization'']"

section \<open>Predicates for the properties\<close>

definition is_dir :: "fs \<Rightarrow> pystr \<Rightarrow> bool" where
  "is_dir fs p \<longleftrightarrow> (case map_of fs p of Some (Dir t) \<Rightarrow> True | _ \<Rightarrow> False)"

definition is_file :: "fs \<Rightarrow> pystr \<Rightarrow> bool" where
  "is_file fs p \<longleftrightarrow> (case map_of fs p of Some (File text t) \<Rightarrow> True | _ \<Rightarrow> False)"


text \<open>
  Two documents that differ in the stamp of their last line only: the same lines before
  it, and the same footer around two formatted readings of the clock.
\<close>

definition stamped :: "env \<Rightarrow> node option \<Rightarrow> node option \<Rightarrow> bool" where
  "stamped E x y \<longleftrightarrow>
     (\<exists>body foot ka kb ta tb.
        (foot = folder_footer \<or> foot = main_footer) \<and>
        x = Some (File (py_join [10] (body @ [foot (strftime_minute E (now E ka))])) ta) \<and>
        y = Some (File (py_join [10] (body @ [foot (strftime_minute E (now E kb))])) tb))"

text \<open>
  For the proofs: the paths the generator may write (they end in \<open>d\<close> and do not start
  with it, as \<open>notebooks/.../README.md\<close> and \<open>NOTEBOOKS_README.md\<close> do), two file systems
  that agree on everything the generator reads, and two runs that leave a path as it
  was or both write it with the same text up to the stamp.
\<close>

definition output_like :: "pystr \<Rightarrow> bool" where
  "output_like p \<longleftrightarrow> p \<noteq> [] \<and> last p = 100 \<and> hd p \<noteq> 100"

definition same_inputs :: "fs \<Rightarrow> fs \<Rightarrow> bool" where
  "same_inputs fs fs' \<longleftrightarrow>
     (\<forall>p. \<not> output_like p \<longrightarrow> map_of fs p = map_of fs' p) \<and> (\<forall>p. is_dir fs p = is_dir fs' p)"

definition rewritten :: "env \<Rightarrow> fs \<Rightarrow> fs \<Rightarrow> fs \<Rightarrow> fs \<Rightarrow> bool" where
  "rewritten E a a' b b' \<longleftrightarrow>
     (\<forall>p. map_of a' p = map_of a p \<and> map_of b' p = map_of b p \<or> stamped E (map_of a' p) (map_of b' p))"

definition folder_path_ok :: "pystr \<Rightarrow> bool" where
  "folder_path_ok fp \<longleftrightarrow> fp \<noteq> [] \<and> hd fp \<noteq> 100 \<and> hd fp \<noteq> 47 \<and> last fp \<noteq> 100"


section \<open>Properties\<close>

lemmas str_defs = lit_def py_strip_def py_strip_chars_def strip_while_def py_isspace_def
  py_startswith_def py_endswith_def py_replace_def py_lower_def lower_char_def upper_char_def
  is_ascii_upper_def is_ascii_lower_def py_title_def basename_def heading_def py_repr_def

lemmas extract_defs = extract_notebook_metadata_def read_notebook_def open_read_def
  default_metadata_def default_title_def read_warning_def get_attr_def str_method_def
  title_and_description_def Let_def

lemmas demo_defs = demo_env_def demo_fs_def markdown_cell_def code_cell_def raw_cell_def

lemma lit_eq_iff: "lit a = lit b \<longleftrightarrow> a = b"
  by (simp add: lit_def inj_map_eq_map inj_on_def)

lemma lit_code_neq_markdown: "lit ''code'' \<noteq> lit ''markdown''"
  by (simp add: lit_def)

lemma count_cells_bounds:
  "count_cells_of_type t cs = Inr n \<Longrightarrow> 0 \<le> n \<and> n \<le> int (length cs)"
  by (induction cs arbitrary: n) (auto split: sum.splits if_splits)

lemma count_cells_disjoint:
  "t1 \<noteq> t2 \<Longrightarrow> count_cells_of_type t1 cs = Inr n1 \<Longrightarrow> count_cells_of_type t2 cs = Inr n2
   \<Longrightarrow> n1 + n2 \<le> int (length cs)"
proof (induction cs arbitrary: n1 n2)
  case Nil
  then show ?case by simp
next
  case (Cons c cs)
  from Cons.prems obtain v k1 k2 where
    v: "get_attr (lit ''cell_type'') (cell_type c) = Inr v"
    and k1: "count_cells_of_type t1 cs = Inr k1" and n1: "n1 = (if v = PyStr t1 then 1 else 0) + k1"
    and k2: "count_cells_of_type t2 cs = Inr k2" and n2: "n2 = (if v = PyStr t2 then 1 else 0) + k2"
    by (auto split: sum.splits)
  from Cons.IH[OF Cons.prems(1) k1 k2] have "k1 + k2 \<le> int (length cs)" .
  with n1 n2 Cons.prems(1) show ?case by auto
qed

lemma title_and_description_keeps:
  "cell_count (title_and_description src m) = cell_count m"
  "markdown_cells (title_and_description src m) = markdown_cells m"
  "code_cells (title_and_description src m) = code_cells m"
  "has_plotly (title_and_description src m) = has_plotly m"
  by (simp_all add: title_and_description_def Let_def split: option.splits)

lemma extract_title_keeps:
  "extract_title cs m = Inr m' \<Longrightarrow>
     cell_count m' = cell_count m \<and> markdown_cells m' = markdown_cells m \<and>
     code_cells m' = code_cells m \<and> has_plotly m' = has_plotly m"
  by (induction cs) (auto simp: title_and_description_keeps split: sum.splits if_splits)

lemma check_plotly_keeps:
  "check_plotly cs m = Inr m' \<Longrightarrow>
     cell_count m' = cell_count m \<and> markdown_cells m' = markdown_cells m \<and>
     code_cells m' = code_cells m \<and> title m' = title m \<and> description m' = description m"
  by (induction cs) (auto split: sum.splits if_splits)

lemma run_try_block:
  "run_stmts (try_block nb) m =
     (let m1 = m\<lparr>cell_count := int (length (cells nb))\<rparr> in
      case count_cells_of_type (lit ''code'') (cells nb) of
        Inl e \<Rightarrow> (m1, Some e)
      | Inr n1 \<Rightarrow>
         (case count_cells_of_type (lit ''markdown'') (cells nb) of
            Inl e \<Rightarrow> (m1\<lparr>code_cells := n1\<rparr>, Some e)
          | Inr n2 \<Rightarrow>
             (case extract_title (cells nb) (m1\<lparr>code_cells := n1, markdown_cells := n2\<rparr>) of
                Inl e \<Rightarrow> (m1\<lparr>code_cells := n1, markdown_cells := n2\<rparr>, Some e)
              | Inr m4 \<Rightarrow>
                 (case check_plotly (cells nb) m4 of
                    Inl e \<Rightarrow> (m4, Some e)
                  | Inr m5 \<Rightarrow> (m5, None)))))"
  by (simp add: try_block_def set_cell_count_def set_code_cells_def set_markdown_cells_def Let_def
      split: sum.splits)

lemma run_try_block_invariant:
  assumes run: "run_stmts (try_block nb) m = (m', x)"
    and zero: "markdown_cells m = 0" "code_cells m = 0"
  shows "0 \<le> cell_count m' \<and> 0 \<le> markdown_cells m' \<and> 0 \<le> code_cells m' \<and>
         markdown_cells m' + code_cells m' \<le> cell_count m'"
proof (cases "count_cells_of_type (lit ''code'') (cells nb)")
  case (Inl e)
  with run zero show ?thesis by (auto simp: run_try_block Let_def)
next
  case code: (Inr n1)
  note b1 = count_cells_bounds[OF code]
  show ?thesis
  proof (cases "count_cells_of_type (lit ''markdown'') (cells nb)")
    case (Inl e)
    with run zero code b1 show ?thesis by (auto simp: run_try_block Let_def)
  next
    case md: (Inr n2)
    note b2 = count_cells_bounds[OF md]
    note b3 = count_cells_disjoint[OF lit_code_neq_markdown code md]
    let ?m3 = "m\<lparr>cell_count := int (length (cells nb)), code_cells := n1, markdown_cells := n2\<rparr>"
    have "cell_count m' = int (length (cells nb)) \<and> code_cells m' = n1 \<and> markdown_cells m' = n2"
    proof (cases "extract_title (cells nb) ?m3")
      case (Inl e)
      with run code md show ?thesis by (auto simp: run_try_block Let_def)
    next
      case t: (Inr m4)
      note k4 = extract_title_keeps[OF t]
      show ?thesis
      proof (cases "check_plotly (cells nb) m4")
        case (Inl e)
        with run code md t k4 show ?thesis by (auto simp: run_try_block Let_def)
      next
        case p: (Inr m5)
        note k5 = check_plotly_keeps[OF p]
        from run code md t p have "m' = m5" by (auto simp: run_try_block Let_def)
        with k4 k5 show ?thesis by simp
      qed
    qed
    with b1 b2 b3 show ?thesis by simp
  qed
qed






text \<open>
  Claim C10.  In every record \<open>extract_notebook_metadata\<close> returns the three counts are
  not negative, and the markdown count plus the code count is at most the cell count.
\<close>

theorem extract_count_invariant:
  assumes "extract_notebook_metadata E fs notebook_path = (Inr m, out)"
  shows "0 \<le> cell_count m \<and> 0 \<le> markdown_cells m \<and> 0 \<le> code_cells m \<and>
         markdown_cells m + code_cells m \<le> cell_count m"
proof (cases "read_notebook E fs notebook_path")
  case (Inl e)
  with assms show ?thesis
    by (auto simp: extract_notebook_metadata_def default_metadata_def)
next
  case (Inr nb)
  obtain m' x where run: "run_stmts (try_block nb) (default_metadata notebook_path) = (m', x)"
    by (cases "run_stmts (try_block nb) (default_metadata notebook_path)")
  with assms Inr have "m = m'"
    by (auto simp: extract_notebook_metadata_def Let_def split: option.splits)
  with run_try_block_invariant[OF run] show ?thesis
    by (simp add: default_metadata_def)
qed

lemma extract_nb_three:
  "extract_notebook_metadata (demo_env nb_three) demo_fs (lit ''n/a_b.ipynb'') =
     (Inr \<lparr>title = lit ''T'', description = [], has_plotly = False,
           cell_count = 3, markdown_cells = 1, code_cells = 1\<rparr>, [])"
  by (simp add: extract_defs run_try_block demo_defs nb_three_def str_defs)

theorem extract_count_invariant_witness:
  "extract_notebook_metadata (demo_env nb_three) demo_fs (lit ''n/a_b.ipynb'') =
     (Inr \<lparr>title = lit ''T'', description = [], has_plotly = False,
           cell_count = 3, markdown_cells = 1, code_cells = 1\<rparr>, []) \<and>
   (0::int) \<le> 3 \<and> (0::int) \<le> 1 \<and> (1::int) + 1 \<le> 3"
  using extract_count_invariant[OF extract_nb_three] extract_nb_three by simp

lemma run_try_block_shape:
  assumes "run_stmts (try_block nb) m = (m', x)"
  shows "(title m' = title m \<and> description m' = description m \<and> has_plotly m' = has_plotly m \<and> x \<noteq> None) \<or>
         (\<exists>m3 m4. title m3 = title m \<and> description m3 = description m \<and> has_plotly m3 = has_plotly m \<and>
                  extract_title (cells nb) m3 = Inr m4 \<and>
                  title m' = title m4 \<and> description m' = description m4 \<and>
                  (x \<noteq> None \<and> m' = m4 \<or> x = None \<and> check_plotly (cells nb) m4 = Inr m'))"
proof (cases "count_cells_of_type (lit ''code'') (cells nb)")
  case (Inl e)
  with assms show ?thesis by (auto simp: run_try_block Let_def)
next
  case code: (Inr n1)
  show ?thesis
  proof (cases "count_cells_of_type (lit ''markdown'') (cells nb)")
    case (Inl e)
    with assms code show ?thesis by (auto simp: run_try_block Let_def)
  next
    case md: (Inr n2)
    let ?m3 = "m\<lparr>cell_count := int (length (cells nb)), code_cells := n1, markdown_cells := n2\<rparr>"
    show ?thesis
    proof (cases "extract_title (cells nb) ?m3")
      case (Inl e)
      with assms code md show ?thesis by (auto simp: run_try_block Let_def)
    next
      case t: (Inr m4)
      show ?thesis
      proof (cases "check_plotly (cells nb) m4")
        case (Inl e)
        with assms code md t have "m' = m4" "x \<noteq> None" by (auto simp: run_try_block Let_def)
        with t show ?thesis by (intro disjI2 exI[of _ ?m3] exI[of _ m4]) simp
      next
        case p: (Inr m5)
        from assms code md t p have "m' = m5" "x = None" by (auto simp: run_try_block Let_def)
        with t p check_plotly_keeps[OF p] show ?thesis
          by (intro disjI2 exI[of _ ?m3] exI[of _ m4]) simp
      qed
    qed
  qed
qed





lemma check_plotly_flag:
  "check_plotly cs m = Inr m' \<Longrightarrow>
     has_plotly m' \<longleftrightarrow> has_plotly m \<or>
       (\<exists>c\<in>set cs. cell_type c = Some (PyStr (lit ''code'')) \<and>
          (\<exists>src. source c = Some (PyStr src) \<and> py_contains (lit ''plotly'') (py_lower src)))"
  by (induction cs) (auto simp: get_attr_def str_method_def split: option.splits pyval.splits if_splits)

lemma check_plotly_stops:
  assumes "cell_type c = Some (PyStr (lit ''code''))" "source c = Some (PyStr src)"
    "py_contains (lit ''plotly'') (py_lower src)"
  shows "check_plotly (pre @ c # post) m = check_plotly (pre @ [c]) m"
  using assms
  by (induction pre) (auto simp: get_attr_def str_method_def split: option.splits pyval.splits sum.splits)

lemma extract_run:
  assumes "read_notebook E fs notebook_path = Inr nb"
    and "extract_notebook_metadata E fs notebook_path = (Inr m, out)"
  shows "\<exists>x. run_stmts (try_block nb) (default_metadata notebook_path) = (m, x) \<and> (out = [] \<longleftrightarrow> x = None)"
  using assms
  by (cases "run_stmts (try_block nb) (default_metadata notebook_path)")
     (auto simp: extract_notebook_metadata_def Let_def split: option.splits)







lemma read_demo: "read_notebook (demo_env nb) demo_fs (lit ''n/a_b.ipynb'') = Inr nb"
  by (simp add: read_notebook_def open_read_def demo_defs lit_eq_iff)

lemma extract_nb_foo_bar:
  "extract_notebook_metadata (demo_env nb_foo_bar) demo_fs (lit ''n/a_b.ipynb'') =
     (Inr \<lparr>title = lit ''Foo Bar'', description = lit ''About sales.'', has_plotly = True,
           cell_count = 5, markdown_cells = 3, code_cells = 2\<rparr>, [])"
  by (simp add: extract_defs run_try_block demo_defs nb_foo_bar_def str_defs)






text \<open>
  Claim C5, as amended.  For a notebook that is read and processed without a failure, the Plotly
  flag is true exactly when some code cell's text, lower-cased, contains \<open>plotly\<close>.
  The scan goes through the cells in order and ends at a match: the cells after a
  matching code cell do not change what it gives.
\<close>

theorem plotly_flag_iff:
  assumes "read_notebook E fs notebook_path = Inr nb"
    and "extract_notebook_metadata E fs notebook_path = (Inr m, [])"
  shows "(has_plotly m \<longleftrightarrow>
            (\<exists>c\<in>set (cells nb). cell_type c = Some (PyStr (lit ''code'')) \<and>
               (\<exists>src. source c = Some (PyStr src) \<and> py_contains (lit ''plotly'') (py_lower src)))) \<and>
         (\<forall>pre (c::cell) post src m0.
            cell_type c = Some (PyStr (lit ''code'')) \<and> source c = Some (PyStr src) \<and>
            py_contains (lit ''plotly'') (py_lower src)
            \<longrightarrow> check_plotly (pre @ c # post) m0 = check_plotly (pre @ [c]) m0)"
proof (intro conjI allI impI)
  from extract_run[OF assms(1,2)] have
    run: "run_stmts (try_block nb) (default_metadata notebook_path) = (m, None)" by auto
  from run_try_block_shape[OF run] obtain m3 m4 where
    m3: "has_plotly m3 = has_plotly (default_metadata notebook_path)"
    and t: "extract_title (cells nb) m3 = Inr m4"
    and p: "check_plotly (cells nb) m4 = Inr m" by auto
  from extract_title_keeps[OF t] m3 have "\<not> has_plotly m4" by (simp add: default_metadata_def)
  with check_plotly_flag[OF p]
  show "has_plotly m \<longleftrightarrow>
            (\<exists>c\<in>set (cells nb). cell_type c = Some (PyStr (lit ''code'')) \<and>
               (\<exists>src. source c = Some (PyStr src) \<and> py_contains (lit ''plotly'') (py_lower src)))"
    by simp
next
  fix pre and c :: cell and post src m0
  assume "cell_type c = Some (PyStr (lit ''code'')) \<and> source c = Some (PyStr src) \<and>
            py_contains (lit ''plotly'') (py_lower src)"
  then show "check_plotly (pre @ c # post) m0 = check_plotly (pre @ [c]) m0"
    using check_plotly_stops by blast
qed

theorem plotly_flag_iff_witness:
  "read_notebook (demo_env nb_foo_bar) demo_fs (lit ''n/a_b.ipynb'') = Inr nb_foo_bar \<and>
   extract_notebook_metadata (demo_env nb_foo_bar) demo_fs (lit ''n/a_b.ipynb'') =
     (Inr \<lparr>title = lit ''Foo Bar'', description = lit ''About sales.'', has_plotly = True,
           cell_count = 5, markdown_cells = 3, code_cells = 2\<rparr>, []) \<and>
   (\<exists>c\<in>set (cells nb_foo_bar). cell_type c = Some (PyStr (lit ''code'')) \<and>
      (\<exists>src. source c = Some (PyStr src) \<and> py_contains (lit ''plotly'') (py_lower src))) \<and>
   py_contains (lit ''plotly'') (py_lower (lit ''import Plotly.express as px'')) \<and>
   check_plotly ([] @ code_cell (lit ''import Plotly.express as px'') # [\<lparr>cell_type = None, source = None\<rparr>])
       (default_metadata []) =
     check_plotly ([] @ [code_cell (lit ''import Plotly.express as px'')]) (default_metadata [])"
proof -
  let ?src = "lit ''import Plotly.express as px''"
  have m: "py_contains (lit ''plotly'') (py_lower ?src)"
    by (simp add: str_defs)
  note both = plotly_flag_iff[OF read_demo extract_nb_foo_bar]
  from both have a: "\<exists>c\<in>set (cells nb_foo_bar). cell_type c = Some (PyStr (lit ''code'')) \<and>
      (\<exists>src. source c = Some (PyStr src) \<and> py_contains (lit ''plotly'') (py_lower src))"
    by simp
  have c: "cell_type (code_cell ?src) = Some (PyStr (lit ''code'')) \<and>
           source (code_cell ?src) = Some (PyStr ?src) \<and> py_contains (lit ''plotly'') (py_lower ?src)"
    using m by (simp add: code_cell_def)
  from both have "\<forall>pre (c::cell) post src m0.
            cell_type c = Some (PyStr (lit ''code'')) \<and> source c = Some (PyStr src) \<and>
            py_contains (lit ''plotly'') (py_lower src)
            \<longrightarrow> check_plotly (pre @ c # post) m0 = check_plotly (pre @ [c]) m0"
    by (rule conjunct2)
  then have "cell_type (code_cell ?src) = Some (PyStr (lit ''code'')) \<and>
           source (code_cell ?src) = Some (PyStr ?src) \<and> py_contains (lit ''plotly'') (py_lower ?src)
     \<longrightarrow> check_plotly ([] @ code_cell ?src # [\<lparr>cell_type = None, source = None\<rparr>]) (default_metadata []) =
         check_plotly ([] @ [code_cell ?src]) (default_metadata [])"
    by (elim allE)
  with c have s: "check_plotly ([] @ code_cell ?src # [\<lparr>cell_type = None, source = None\<rparr>]) (default_metadata []) =
         check_plotly ([] @ [code_cell ?src]) (default_metadata [])"
    by (rule rev_mp)
  show ?thesis
    by (intro conjI read_demo extract_nb_foo_bar a m s)
qed

theorem plotly_after_failure_counterexample:
  "read_notebook (demo_env nb_partial) demo_fs (lit ''n/a_b.ipynb'') = Inr nb_partial \<and>
   cells nb_partial =
     [\<lparr>cell_type = Some (PyStr (lit ''markdown'')), source = None\<rparr>,
      \<lparr>cell_type = Some (PyStr (lit ''code'')), source = Some (PyStr (lit ''import plotly''))\<rparr>] \<and>
   py_contains (lit ''plotly'') (py_lower (lit ''import plotly'')) \<and>
   extract_notebook_metadata (demo_env nb_partial) demo_fs (lit ''n/a_b.ipynb'') =
     (Inr \<lparr>title = lit ''A B'', description = [], has_plotly = False,
           cell_count = 2, markdown_cells = 1, code_cells = 1\<rparr>,
      [lit ''Warning: Could not read notebook n/a_b.ipynb: source''])"
  by (simp add: extract_defs run_try_block demo_defs nb_partial_def str_defs)

text \<open>
  Claim C6.  For a folder key that \<open>folder_info\<close> does not have,
  \<open>generate_folder_readme\<close> prints the warning that names the key and returns: the
  file system is as it was, and no exception is raised, so the caller goes on.
\<close>

theorem folder_without_descriptor:
  assumes "folder_key \<notin> fst ` set folder_info"
  shows "generate_folder_readme E folder_path folder_key w =
           (w\<lparr>stdout := stdout w @ [lit ''Warning: No info found for folder '' @ folder_key]\<rparr>, None)"
proof -
  from assms have "map_of folder_info folder_key = None"
    by (simp add: map_of_eq_None_iff)
  then show ?thesis by (simp add: generate_folder_readme_def print_def)
qed

theorem folder_without_descriptor_witness:
  "lit ''archive'' \<notin> fst ` set folder_info \<and>
   generate_folder_readme (demo_env \<lparr>cells = []\<rparr>) (lit ''notebooks/archive'') (lit ''archive'')
       \<lparr>files = [(lit ''notebooks/archive'', Dir 0)], stdout = [], ticks = 0\<rparr> =
     (\<lparr>files = [(lit ''notebooks/archive'', Dir 0)],
       stdout = [lit ''Warning: No info found for folder archive''], ticks = 0\<rparr>, None)"
proof -
  have k: "lit ''archive'' \<notin> fst ` set folder_info"
    by (simp add: folder_info_def lit_eq_iff)
  from folder_without_descriptor[OF k] k show ?thesis by (simp add: lit_def)
qed

lemma last_path_join: "b \<noteq> [] \<Longrightarrow> last (path_join a b) = last b"
  by (simp add: path_join_def)

lemma hd_path_join: "a \<noteq> [] \<Longrightarrow> hd a \<noteq> 47 \<Longrightarrow> b \<noteq> [] \<Longrightarrow> hd b \<noteq> 47 \<Longrightarrow> hd (path_join a b) = hd a"
  by (cases b) (auto simp: path_join_def py_startswith_def)

lemma path_join_entry:
  "n \<noteq> [] \<Longrightarrow> 47 \<notin> set n \<Longrightarrow>
   path_join d n = (if d = [] \<or> py_endswith d [47] then d else d @ [47]) @ n"
  by (cases n) (auto simp: path_join_def py_startswith_def)

lemma entry_name_Some:
  "entry_name d p = Some n \<longleftrightarrow> n \<noteq> [] \<and> 47 \<notin> set n \<and> p = path_join d n"
proof -
  define pre where "pre = (if d = [] \<or> py_endswith d [47] then d else d @ [47])"
  have en: "entry_name d p = Some n \<longleftrightarrow>
      py_startswith p pre \<and> drop (length pre) p \<noteq> [] \<and> 47 \<notin> set (drop (length pre) p) \<and>
      n = drop (length pre) p"
    unfolding entry_name_def pre_def Let_def by (simp only: split: if_splits) auto
  have pj: "n \<noteq> [] \<Longrightarrow> 47 \<notin> set n \<Longrightarrow> path_join d n = pre @ n"
    unfolding pre_def by (rule path_join_entry)
  show ?thesis
  proof
    assume e: "entry_name d p = Some n"
    with en have s: "take (length pre) p = pre" and n: "n = drop (length pre) p"
      and ne: "n \<noteq> []" and sl: "47 \<notin> set n"
      by (simp_all add: py_startswith_def)
    have "take (length pre) p @ drop (length pre) p = p" by (rule append_take_drop_id)
    with s n have "p = pre @ n" by simp
    with ne sl pj show "n \<noteq> [] \<and> 47 \<notin> set n \<and> p = path_join d n" by simp
  next
    assume a: "n \<noteq> [] \<and> 47 \<notin> set n \<and> p = path_join d n"
    with pj have p: "p = pre @ n" by simp
    then have "py_startswith p pre" "drop (length pre) p = n"
      by (simp_all add: py_startswith_def)
    with a show "entry_name d p = Some n" unfolding en by simp
  qed
qed

lemma set_map_filter: "set (List.map_filter f xs) = {y. \<exists>x\<in>set xs. f x = Some y}"
  by (induction xs) (auto simp: List.map_filter_simps split: option.splits)

lemma listdir_names:
  assumes "listdir fs d = Inr names"
  shows "set names = {n. n \<noteq> [] \<and> 47 \<notin> set n \<and> map_of fs (path_join d n) \<noteq> None}"
    and "distinct names"
proof -
  from assms have names: "names = remdups (List.map_filter (entry_name d) (map fst fs))"
    by (auto simp: listdir_def split: option.splits node.splits)
  then show "distinct names" by simp
  have "set names = {n. \<exists>p \<in> fst ` set fs. entry_name d p = Some n}"
    unfolding names by (simp add: set_map_filter)
  also have "\<dots> = {n. n \<noteq> [] \<and> 47 \<notin> set n \<and> path_join d n \<in> fst ` set fs}"
    by (simp add: entry_name_Some)
  also have "\<dots> = {n. n \<noteq> [] \<and> 47 \<notin> set n \<and> map_of fs (path_join d n) \<noteq> None}"
    by (simp add: map_of_eq_None_iff)
  finally show "set names = {n. n \<noteq> [] \<and> 47 \<notin> set n \<and> map_of fs (path_join d n) \<noteq> None}" .
qed

lemma map_of_open_write:
  "open_write fs p text t = Inr fs' \<Longrightarrow>
   map_of fs' q = (if q = p then Some (File text t) else map_of fs q)"
proof -
  have f: "map_of (filter (\<lambda>(q, n). q \<noteq> p) fs) q = (if q = p then None else map_of fs q)" for fs :: fs
    by (induction fs) auto
  assume "open_write fs p text t = Inr fs'"
  then have "fs' = (p, File text t) # filter (\<lambda>(q, n). q \<noteq> p) fs"
    by (auto simp: open_write_def split: option.splits node.splits)
  then show ?thesis by (simp add: f)
qed

lemma open_write_fails:
  "open_write fs p text t = Inl e \<longleftrightarrow> (\<exists>t'. map_of fs p = Some (Dir t')) \<and> e = IsADirectoryError p"
  by (auto simp: open_write_def split: option.splits node.splits)


lemma extract_never_raises: "\<exists>m out. extract_notebook_metadata E fs p = (Inr m, out)"
  by (auto simp: extract_notebook_metadata_def Let_def split: sum.splits option.splits prod.splits)

lemma extract_cong:
  "map_of fs p = map_of fs' p \<Longrightarrow> extract_notebook_metadata E fs p = extract_notebook_metadata E fs' p"
  by (simp add: extract_notebook_metadata_def read_notebook_def open_read_def)

lemma notebook_rows_world:
  "notebook_rows E fp fk ns w = (r, w') \<Longrightarrow>
     files w' = files w \<and> ticks w' = ticks w \<and> (\<exists>out. stdout w' = stdout w @ out)"
proof (induction ns arbitrary: w r w')
  case Nil
  then show ?case by simp
next
  case (Cons n ns)
  obtain m out where ex: "extract_notebook_metadata E (files w) (path_join fp n) = (Inr m, out)"
    using extract_never_raises by blast
  let ?w1 = "w\<lparr>stdout := stdout w @ out\<rparr>"
  show ?case
  proof (cases "getmtime (files w) (path_join fp n)")
    case (Inl e)
    with Cons.prems ex show ?thesis by (auto simp: Let_def split: prod.splits)
  next
    case (Inr t)
    obtain r2 w2 where rec: "notebook_rows E fp fk ns ?w1 = (r2, w2)"
      by (cases "notebook_rows E fp fk ns ?w1")
    from Cons.IH[OF rec] have ih: "files w2 = files w" "ticks w2 = ticks w" "\<exists>o2. stdout w2 = stdout w @ out @ o2"
      by auto
    from Cons.prems ex Inr rec have "w' = w2"
      by (auto simp: Let_def split: prod.splits sum.splits)
    with ih show ?thesis by auto
  qed
qed



lemma notebook_rows_cong:
  assumes "\<forall>n\<in>set ns. map_of (files a) (path_join fp n) = map_of (files b) (path_join fp n)"
    and "\<forall>p. hd p = 100 \<longrightarrow> map_of (files a) p = map_of (files b) p"
  shows "fst (notebook_rows E fp fk ns a) = fst (notebook_rows E fp fk ns b)"
  using assms
proof (induction ns arbitrary: a b)
  case Nil
  then show ?case by simp
next
  case (Cons n ns)
  obtain m out where ex: "extract_notebook_metadata E (files a) (path_join fp n) = (Inr m, out)"
    using extract_never_raises by blast
  with Cons.prems(1) have exb: "extract_notebook_metadata E (files b) (path_join fp n) = (Inr m, out)"
    using extract_cong[of "files a" "path_join fp n" "files b" E] by simp
  let ?a1 = "a\<lparr>stdout := stdout a @ out\<rparr>" and ?b1 = "b\<lparr>stdout := stdout b @ out\<rparr>"
  have g: "getmtime (files a) (path_join fp n) = getmtime (files b) (path_join fp n)"
    using Cons.prems(1) by (simp add: getmtime_def)
  have v: "view_options_of (files a) n gl hl pl = view_options_of (files b) n gl hl pl" for gl hl pl
    using Cons.prems(2) by (simp add: view_options_of_def exists_def lit_def)
  have "fst (notebook_rows E fp fk ns ?a1) = fst (notebook_rows E fp fk ns ?b1)"
    using Cons.prems by (intro Cons.IH) simp_all
  with ex exb g v show ?case
    by (auto simp: Let_def split: prod.splits sum.splits)
qed


lemma is_dir_iff: "is_dir fs p \<longleftrightarrow> (\<exists>t. map_of fs p = Some (Dir t))"
  by (auto simp: is_dir_def split: option.splits node.splits)

lemma is_file_iff: "is_file fs p \<longleftrightarrow> (\<exists>text t. map_of fs p = Some (File text t))"
  by (auto simp: is_file_def split: option.splits node.splits)

lemma endswith_last:
  assumes "py_endswith n s" "s \<noteq> []"
  shows "n \<noteq> [] \<and> last n = last s"
proof -
  from assms have l: "length s \<le> length n" and d: "drop (length n - length s) n = s"
    by (simp_all add: py_endswith_def)
  from l assms(2) have ne: "n \<noteq> []" by auto
  from l assms(2) have "length n - length s < length n" by (cases s) auto
  then have "last (drop (length n - length s) n) = last n" by (simp add: last_drop)
  with d ne show ?thesis by simp
qed

lemma ipynb_name: "py_endswith n (lit ''.ipynb'') \<Longrightarrow> n \<noteq> [] \<and> last n = 98"
  using endswith_last[of n "lit ''.ipynb''"] by (simp add: lit_def)

lemma ipynb_path_not_output:
  "py_endswith n (lit ''.ipynb'') \<Longrightarrow> \<not> output_like (path_join fp n)"
  using ipynb_name[of n] by (simp add: output_like_def last_path_join)

lemma readme_path_output:
  "folder_path_ok fp \<Longrightarrow> output_like (path_join fp (lit ''README.md''))"
proof -
  assume a: "folder_path_ok fp"
  have r: "lit ''README.md'' \<noteq> []" "hd (lit ''README.md'') \<noteq> 47" "last (lit ''README.md'') = 100"
    by (simp_all add: lit_def)
  from a r have "hd (path_join fp (lit ''README.md'')) = hd fp"
    by (intro hd_path_join) (simp_all add: folder_path_ok_def)
  moreover have "last (path_join fp (lit ''README.md'')) = 100"
    using r by (simp add: last_path_join)
  moreover have "path_join fp (lit ''README.md'') \<noteq> []"
    using r by (auto simp: path_join_def)
  ultimately show ?thesis using a by (simp add: output_like_def folder_path_ok_def)
qed

lemma folder_path_not_output: "folder_path_ok fp \<Longrightarrow> \<not> output_like fp"
  by (simp add: output_like_def folder_path_ok_def)

lemma same_inputs_refl: "same_inputs fs fs"
  by (simp add: same_inputs_def)

lemma same_inputs_sym: "same_inputs a b \<Longrightarrow> same_inputs b a"
  by (simp add: same_inputs_def)

lemma same_inputs_trans: "same_inputs a b \<Longrightarrow> same_inputs b c \<Longrightarrow> same_inputs a c"
  by (simp add: same_inputs_def)

lemma same_inputs_map_of: "same_inputs a b \<Longrightarrow> \<not> output_like p \<Longrightarrow> map_of a p = map_of b p"
  by (simp add: same_inputs_def)

lemma same_inputs_exists: "same_inputs a b \<Longrightarrow> \<not> output_like p \<Longrightarrow> exists a p = exists b p"
  by (simp add: same_inputs_def exists_def)

lemma same_inputs_docs: "same_inputs a b \<Longrightarrow> hd p = 100 \<Longrightarrow> map_of a p = map_of b p"
  by (simp add: same_inputs_def output_like_def)

lemma sorted_listing_eq:
  assumes "same_inputs a b" "\<not> output_like d"
    and "listdir a d = Inr xs" "listdir b d = Inr ys"
  shows "sort (filter (\<lambda>f. py_endswith f (lit ''.ipynb'')) xs) =
         sort (filter (\<lambda>f. py_endswith f (lit ''.ipynb'')) ys)"
proof -
  let ?P = "\<lambda>f. py_endswith f (lit ''.ipynb'')"
  have "set (filter ?P xs) = set (filter ?P ys)"
  proof -
    have "map_of a (path_join d n) = map_of b (path_join d n)" if "?P n" for n
      using that assms(1) ipynb_path_not_output by (simp add: same_inputs_def)
    then show ?thesis
      unfolding set_filter listdir_names(1)[OF assms(3)] listdir_names(1)[OF assms(4)]
      by auto
  qed
  moreover have "distinct (filter ?P xs)" "distinct (filter ?P ys)"
    using listdir_names(2)[OF assms(3)] listdir_names(2)[OF assms(4)] by simp_all
  ultimately show ?thesis
    by (intro sorted_distinct_set_unique) simp_all
qed

lemma listdir_same:
  assumes "same_inputs a b" "\<not> output_like d"
  shows "(\<exists>xs. listdir a d = Inr xs) \<longleftrightarrow> (\<exists>ys. listdir b d = Inr ys)"
    and "listdir a d = Inl e \<longleftrightarrow> listdir b d = Inl e"
  using same_inputs_map_of[OF assms]
  by (auto simp: listdir_def split: option.splits node.splits)


lemma gfr_none:
  "map_of folder_info fk = None \<Longrightarrow>
   generate_folder_readme E fp fk w = (print (lit ''Warning: No info found for folder '' @ fk) w, None)"
  by (simp add: generate_folder_readme_def)

lemma gfr_listdir_fail:
  "map_of folder_info fk = Some info \<Longrightarrow> listdir (files w) fp = Inl e \<Longrightarrow>
   generate_folder_readme E fp fk w = (w, Some e)"
  by (simp add: generate_folder_readme_def)



lemma gfr_rows_fail:
  assumes "map_of folder_info fk = Some info" "listdir (files w) fp = Inr names"
    and "fst (notebook_rows E fp fk (sort (filter (\<lambda>f. py_endswith f (lit ''.ipynb'')) names)) w) = Inl e"
  shows "files (fst (generate_folder_readme E fp fk w)) = files w \<and>
         snd (generate_folder_readme E fp fk w) = Some e \<and>
         (\<exists>out. stdout (fst (generate_folder_readme E fp fk w)) = stdout w @ out)"
proof -
  let ?ns = "sort (filter (\<lambda>f. py_endswith f (lit ''.ipynb'')) names)"
  obtain r w1 where nr: "notebook_rows E fp fk ?ns w = (r, w1)"
    by (cases "notebook_rows E fp fk ?ns w")
  with assms(3) have r: "r = Inl e" by simp
  from notebook_rows_world[OF nr] assms(1,2) nr r show ?thesis
    by (simp add: generate_folder_readme_def)
qed

lemma gfr_rows_ok:
  assumes "map_of folder_info fk = Some info" "listdir (files w) fp = Inr names"
    and "fst (notebook_rows E fp fk (sort (filter (\<lambda>f. py_endswith f (lit ''.ipynb'')) names)) w) = Inr rows"
  shows "case open_write (files w) (path_join fp (lit ''README.md''))
                (py_join [10] (folder_readme_body info rows
                   @ [folder_footer (strftime_minute E (now E (ticks w)))]))
                (now E (Suc (ticks w))) of
           Inl e \<Rightarrow> files (fst (generate_folder_readme E fp fk w)) = files w \<and>
                    snd (generate_folder_readme E fp fk w) = Some e
         | Inr fs' \<Rightarrow> files (fst (generate_folder_readme E fp fk w)) = fs' \<and>
                    snd (generate_folder_readme E fp fk w) = None"
    and "\<exists>out. stdout (fst (generate_folder_readme E fp fk w)) = stdout w @ out"
proof -
  let ?ns = "sort (filter (\<lambda>f. py_endswith f (lit ''.ipynb'')) names)"
  obtain r w1 where nr: "notebook_rows E fp fk ?ns w = (r, w1)"
    by (cases "notebook_rows E fp fk ?ns w")
  with assms(3) have r: "r = Inr rows" by simp
  note w1 = notebook_rows_world[OF nr]
  from w1 assms(1,2) nr r
  show "case open_write (files w) (path_join fp (lit ''README.md''))
                (py_join [10] (folder_readme_body info rows
                   @ [folder_footer (strftime_minute E (now E (ticks w)))]))
                (now E (Suc (ticks w))) of
           Inl e \<Rightarrow> files (fst (generate_folder_readme E fp fk w)) = files w \<and>
                    snd (generate_folder_readme E fp fk w) = Some e
         | Inr fs' \<Rightarrow> files (fst (generate_folder_readme E fp fk w)) = fs' \<and>
                    snd (generate_folder_readme E fp fk w) = None"
    by (simp add: generate_folder_readme_def Let_def print_def split: sum.splits)
  from w1 assms(1,2) nr r
  show "\<exists>out. stdout (fst (generate_folder_readme E fp fk w)) = stdout w @ out"
    by (auto simp: generate_folder_readme_def Let_def print_def split: sum.splits)
qed


lemma rewritten_same: "rewritten E a a b b"
  by (simp add: rewritten_def)

lemma rewritten_trans:
  "rewritten E a a1 b b1 \<Longrightarrow> rewritten E a1 a2 b1 b2 \<Longrightarrow> rewritten E a a2 b b2"
  unfolding rewritten_def
proof (intro allI)
  fix p
  assume 1: "\<forall>p. map_of a1 p = map_of a p \<and> map_of b1 p = map_of b p \<or> stamped E (map_of a1 p) (map_of b1 p)"
    and 2: "\<forall>p. map_of a2 p = map_of a1 p \<and> map_of b2 p = map_of b1 p \<or> stamped E (map_of a2 p) (map_of b2 p)"
  from 2 have "map_of a2 p = map_of a1 p \<and> map_of b2 p = map_of b1 p \<or> stamped E (map_of a2 p) (map_of b2 p)" ..
  then show "map_of a2 p = map_of a p \<and> map_of b2 p = map_of b p \<or> stamped E (map_of a2 p) (map_of b2 p)"
  proof
    assume s: "map_of a2 p = map_of a1 p \<and> map_of b2 p = map_of b1 p"
    from 1 have "map_of a1 p = map_of a p \<and> map_of b1 p = map_of b p \<or> stamped E (map_of a1 p) (map_of b1 p)" ..
    with s show ?thesis by auto
  next
    assume "stamped E (map_of a2 p) (map_of b2 p)"
    then show ?thesis ..
  qed
qed

lemma write_pair:
  assumes si: "same_inputs a b" and out: "output_like p"
    and wa: "open_write a p (py_join [10] (body @ [foot (strftime_minute E (now E ka))])) ta = Inr a'"
    and wb: "open_write b p (py_join [10] (body @ [foot (strftime_minute E (now E kb))])) tb = Inr b'"
    and foot: "foot = folder_footer \<or> foot = main_footer"
  shows "same_inputs a' b' \<and> rewritten E a a' b b'"
proof -
  note ma = map_of_open_write[OF wa] and mb = map_of_open_write[OF wb]
  have "same_inputs a' b'"
    using si out by (auto simp: same_inputs_def ma mb is_dir_def)
  moreover have "rewritten E a a' b b'"
    unfolding rewritten_def
  proof
    fix q
    show "map_of a' q = map_of a q \<and> map_of b' q = map_of b q \<or> stamped E (map_of a' q) (map_of b' q)"
    proof (cases "q = p")
      case True
      with foot have "stamped E (map_of a' q) (map_of b' q)"
        unfolding stamped_def ma mb by (intro exI[of _ body] exI[of _ foot] exI[of _ ka] exI[of _ kb] exI[of _ ta] exI[of _ tb]) simp
      then show ?thesis ..
    next
      case False
      then show ?thesis by (simp add: ma mb)
    qed
  qed
  ultimately show ?thesis ..
qed

lemma write_same_failure:
  assumes "same_inputs a b"
  shows "open_write a p ta ua = Inl e \<longleftrightarrow> open_write b p tb ub = Inl e"
proof -
  from assms have "is_dir a p = is_dir b p" by (simp add: same_inputs_def)
  then show ?thesis by (simp add: open_write_fails is_dir_iff)
qed

lemma write_frame:
  assumes "open_write a p text t = Inr a'" "output_like p"
  shows "same_inputs a a'"
proof -
  note ma = map_of_open_write[OF assms(1)]
  from assms(1) have "\<not> is_dir a p"
    by (auto simp: open_write_def is_dir_def split: option.splits node.splits)
  with assms(2) show ?thesis
    by (auto simp: same_inputs_def ma is_dir_def)
qed


lemma files_print: "files (print l w) = files w"
  by (simp add: print_def)

lemma gfr_sim:
  assumes si: "same_inputs (files a) (files b)" and ok: "folder_path_ok fp"
  shows "snd (generate_folder_readme E fp fk a) = snd (generate_folder_readme E fp fk b) \<and>
         same_inputs (files (fst (generate_folder_readme E fp fk a))) (files (fst (generate_folder_readme E fp fk b))) \<and>
         rewritten E (files a) (files (fst (generate_folder_readme E fp fk a)))
                   (files b) (files (fst (generate_folder_readme E fp fk b)))"
proof (cases "map_of folder_info fk")
  case None
  with si show ?thesis by (simp add: gfr_none files_print rewritten_same)
next
  case (Some info)
  note no = folder_path_not_output[OF ok]
  show ?thesis
  proof (cases "listdir (files a) fp")
    case (Inl e)
    with listdir_same(2)[OF si no, of e] have "listdir (files b) fp = Inl e" by simp
    with Inl Some si show ?thesis by (simp add: gfr_listdir_fail rewritten_same)
  next
    case (Inr xs)
    with listdir_same(1)[OF si no] obtain ys where ys: "listdir (files b) fp = Inr ys" by blast
    let ?P = "\<lambda>f. py_endswith f (lit ''.ipynb'')"
    let ?ns = "sort (filter ?P xs)"
    have ns: "sort (filter ?P ys) = ?ns"
      using sorted_listing_eq[OF si no Inr ys] by simp
    have "\<forall>n\<in>set ?ns. map_of (files a) (path_join fp n) = map_of (files b) (path_join fp n)"
      using si ipynb_path_not_output by (auto simp: same_inputs_def)
    moreover have "\<forall>p. hd p = 100 \<longrightarrow> map_of (files a) p = map_of (files b) p"
      using same_inputs_docs[OF si] by blast
    ultimately have rows: "fst (notebook_rows E fp fk ?ns a) = fst (notebook_rows E fp fk ?ns b)"
      by (rule notebook_rows_cong)
    show ?thesis
    proof (cases "fst (notebook_rows E fp fk ?ns a)")
      case e: (Inl e)
      with rows have "fst (notebook_rows E fp fk (sort (filter ?P ys)) b) = Inl e" by (simp add: ns)
      from gfr_rows_fail[OF Some Inr e] gfr_rows_fail[OF Some ys this] si
      show ?thesis by (simp add: rewritten_same)
    next
      case r: (Inr rows)
      with rows have rb: "fst (notebook_rows E fp fk (sort (filter ?P ys)) b) = Inr rows" by (simp add: ns)
      let ?p = "path_join fp (lit ''README.md'')"
      let ?ta = "py_join [10] (folder_readme_body info rows @ [folder_footer (strftime_minute E (now E (ticks a)))])"
      let ?tb = "py_join [10] (folder_readme_body info rows @ [folder_footer (strftime_minute E (now E (ticks b)))])"
      note ga = gfr_rows_ok(1)[OF Some Inr r] and gb = gfr_rows_ok(1)[OF Some ys rb]
      show ?thesis
      proof (cases "open_write (files a) ?p ?ta (now E (Suc (ticks a)))")
        case wa: (Inl e)
        with write_same_failure[OF si] have "open_write (files b) ?p ?tb (now E (Suc (ticks b))) = Inl e"
          by blast
        with wa ga gb si show ?thesis by (simp add: rewritten_same)
      next
        case wa: (Inr a')
        obtain b' where wb: "open_write (files b) ?p ?tb (now E (Suc (ticks b))) = Inr b'"
        proof (cases "open_write (files b) ?p ?tb (now E (Suc (ticks b)))")
          case (Inl e)
          with write_same_failure[OF si] have "open_write (files a) ?p ?ta (now E (Suc (ticks a))) = Inl e"
            by blast
          with wa show ?thesis by simp
        next
          case (Inr b')
          with that show ?thesis .
        qed
        from write_pair[where foot = folder_footer, OF si readme_path_output[OF ok] wa wb] have
          "same_inputs a' b' \<and> rewritten E (files a) a' (files b) b'" by simp
        with wa wb ga gb show ?thesis by simp
      qed
    qed
  qed
qed

lemma gfr_frame:
  assumes ok: "folder_path_ok fp"
  shows "same_inputs (files w) (files (fst (generate_folder_readme E fp fk w))) \<and>
         (\<exists>out. stdout (fst (generate_folder_readme E fp fk w)) = stdout w @ out)"
proof (cases "map_of folder_info fk")
  case None
  then show ?thesis by (simp add: gfr_none print_def same_inputs_refl)
next
  case (Some info)
  show ?thesis
  proof (cases "listdir (files w) fp")
    case (Inl e)
    with Some show ?thesis by (simp add: gfr_listdir_fail same_inputs_refl)
  next
    case (Inr xs)
    let ?ns = "sort (filter (\<lambda>f. py_endswith f (lit ''.ipynb'')) xs)"
    show ?thesis
    proof (cases "fst (notebook_rows E fp fk ?ns w)")
      case e: (Inl e)
      from gfr_rows_fail[OF Some Inr e] show ?thesis by (simp add: same_inputs_refl)
    next
      case r: (Inr rows)
      note g = gfr_rows_ok[OF Some Inr r]
      show ?thesis
      proof (cases "open_write (files w) (path_join fp (lit ''README.md''))
                (py_join [10] (folder_readme_body info rows
                   @ [folder_footer (strftime_minute E (now E (ticks w)))]))
                (now E (Suc (ticks w)))")
        case (Inl e)
        with g show ?thesis by (simp add: same_inputs_refl)
      next
        case wr: (Inr fs')
        from write_frame[OF wr readme_path_output[OF ok]] wr g show ?thesis by simp
      qed
    qed
  qed
qed


lemma process_folders_sim:
  assumes "\<forall>(k, info)\<in>set fi. folder_path_ok (path_join base k)"
    and "same_inputs (files a) (files b)"
  shows "fst (process_folders E base fi n a) = fst (process_folders E base fi n b) \<and>
         same_inputs (files (snd (process_folders E base fi n a))) (files (snd (process_folders E base fi n b))) \<and>
         rewritten E (files a) (files (snd (process_folders E base fi n a)))
                   (files b) (files (snd (process_folders E base fi n b)))"
  using assms
proof (induction fi arbitrary: n a b)
  case Nil
  then show ?case by (simp add: rewritten_same)
next
  case (Cons x fi)
  obtain k info where x: "x = (k, info)" by (cases x)
  let ?fp = "path_join base k"
  from Cons.prems(1) x have ok: "folder_path_ok ?fp" and rest: "\<forall>(k, info)\<in>set fi. folder_path_ok (path_join base k)"
    by auto
  note si = Cons.prems(2)
  have ex: "exists (files a) ?fp = exists (files b) ?fp"
    using same_inputs_exists[OF si folder_path_not_output[OF ok]] .
  show ?case
  proof (cases "exists (files a) ?fp")
    case False
    let ?l = "[9888, 65039] @ lit ''  Folder not found: '' @ ?fp"
    have "same_inputs (files (print ?l a)) (files (print ?l b))" using si by (simp add: files_print)
    from Cons.IH[OF rest this, of n] False ex x show ?thesis
      by (simp add: files_print)
  next
    case True
    let ?ga = "generate_folder_readme E ?fp k a" and ?gb = "generate_folder_readme E ?fp k b"
    note g = gfr_sim[OF si ok, of E k]
    show ?thesis
    proof (cases "snd ?ga")
      case (Some e)
      with g have "snd ?gb = Some e" by simp
      with Some g True ex x show ?thesis
        by (simp add: case_prod_beta)
    next
      case None
      with g have nb: "snd ?gb = None" by simp
      from g have s1: "same_inputs (files (fst ?ga)) (files (fst ?gb))" by simp
      note ih = Cons.IH[OF rest s1, of "n + 1"]
      from g have r1: "rewritten E (files a) (files (fst ?ga)) (files b) (files (fst ?gb))" by simp
      from ih have r2: "rewritten E (files (fst ?ga)) (files (snd (process_folders E base fi (n + 1) (fst ?ga))))
                            (files (fst ?gb)) (files (snd (process_folders E base fi (n + 1) (fst ?gb))))" by simp
      note r = rewritten_trans[OF r1 r2]
      from None nb True ex x ih r show ?thesis
        by (simp add: case_prod_beta)
    qed
  qed
qed

lemma process_folders_frame:
  assumes "\<forall>(k, info)\<in>set fi. folder_path_ok (path_join base k)"
  shows "same_inputs (files w) (files (snd (process_folders E base fi n w)))"
  using assms
proof (induction fi arbitrary: n w)
  case Nil
  then show ?case by (simp add: same_inputs_refl)
next
  case (Cons x fi)
  obtain k info where x: "x = (k, info)" by (cases x)
  let ?fp = "path_join base k"
  from Cons.prems x have ok: "folder_path_ok ?fp" and rest: "\<forall>(k, info)\<in>set fi. folder_path_ok (path_join base k)"
    by auto
  show ?case
  proof (cases "exists (files w) ?fp")
    case False
    with Cons.IH[OF rest, of "print ([9888, 65039] @ lit ''  Folder not found: '' @ ?fp) w" n] x
    show ?thesis by (simp add: files_print)
  next
    case True
    let ?g = "generate_folder_readme E ?fp k w"
    from gfr_frame[OF ok, of w E k] have f: "same_inputs (files w) (files (fst ?g))" by simp
    show ?thesis
    proof (cases "snd ?g")
      case (Some e)
      with True x f show ?thesis by (simp add: case_prod_beta)
    next
      case None
      from same_inputs_trans[OF f Cons.IH[OF rest, of "fst ?g" "n + 1"]] None True x
      show ?thesis by (simp add: case_prod_beta)
    qed
  qed
qed


lemma quick_links_world:
  "quick_links E fp ns w = (r, w') \<Longrightarrow>
     files w' = files w \<and> ticks w' = ticks w \<and> (\<exists>out. stdout w' = stdout w @ out)"
proof (induction ns arbitrary: w r w')
  case Nil
  then show ?case by simp
next
  case (Cons n ns)
  obtain m out where ex: "extract_notebook_metadata E (files w) (path_join fp n) = (Inr m, out)"
    using extract_never_raises by blast
  let ?w1 = "w\<lparr>stdout := stdout w @ out\<rparr>"
  obtain r2 w2 where rec: "quick_links E fp ns ?w1 = (r2, w2)"
    by (cases "quick_links E fp ns ?w1")
  from Cons.IH[OF rec] have ih: "files w2 = files w" "ticks w2 = ticks w" "\<exists>o2. stdout w2 = stdout w @ out @ o2"
    by auto
  from Cons.prems ex rec have "w' = w2"
    by (auto simp: Let_def split: prod.splits sum.splits)
  with ih show ?case by auto
qed


lemma quick_links_cong:
  assumes "\<forall>n\<in>set ns. map_of (files a) (path_join fp n) = map_of (files b) (path_join fp n)"
    and "\<forall>p. hd p = 100 \<longrightarrow> map_of (files a) p = map_of (files b) p"
  shows "fst (quick_links E fp ns a) = fst (quick_links E fp ns b)"
  using assms
proof (induction ns arbitrary: a b)
  case Nil
  then show ?case by simp
next
  case (Cons n ns)
  obtain m out where ex: "extract_notebook_metadata E (files a) (path_join fp n) = (Inr m, out)"
    using extract_never_raises by blast
  with Cons.prems(1) have exb: "extract_notebook_metadata E (files b) (path_join fp n) = (Inr m, out)"
    using extract_cong[of "files a" "path_join fp n" "files b" E] by simp
  let ?a1 = "a\<lparr>stdout := stdout a @ out\<rparr>" and ?b1 = "b\<lparr>stdout := stdout b @ out\<rparr>"
  have v: "exists (files a) (lit ''docs/'' @ x) = exists (files b) (lit ''docs/'' @ x)" for x
    using Cons.prems(2) by (simp add: exists_def lit_def)
  have "fst (quick_links E fp ns ?a1) = fst (quick_links E fp ns ?b1)"
    using Cons.prems by (intro Cons.IH) simp_all
  with ex exb v show ?case
    by (auto simp: Let_def split: prod.splits sum.splits)
qed

lemma quick_access_world:
  "quick_access E fi w = (r, w') \<Longrightarrow>
     files w' = files w \<and> ticks w' = ticks w \<and> (\<exists>out. stdout w' = stdout w @ out)"
proof (induction fi arbitrary: w r w')
  case Nil
  then show ?case by simp
next
  case (Cons x fi)
  obtain k info where x: "x = (k, info)" by (cases x)
  let ?fp = "path_join (lit ''notebooks'') k"
  show ?case
  proof (cases "exists (files w) ?fp")
    case False
    with Cons.prems x have "quick_access E fi w = (r, w')" by simp
    from Cons.IH[OF this] show ?thesis .
  next
    case True
    show ?thesis
    proof (cases "listdir (files w) ?fp")
      case (Inl e)
      with Cons.prems x True show ?thesis by auto
    next
      case (Inr names)
      let ?ns = "sort (filter (\<lambda>f. py_endswith f (lit ''.ipynb'')) names)"
      obtain r1 w1 where q: "quick_links E ?fp ?ns w = (r1, w1)" by (cases "quick_links E ?fp ?ns w")
      note w1 = quick_links_world[OF q]
      obtain r2 w2 where rec: "quick_access E fi w1 = (r2, w2)" by (cases "quick_access E fi w1")
      note w2 = Cons.IH[OF rec]
      from w1 w2 have both: "files w2 = files w \<and> ticks w2 = ticks w \<and> (\<exists>out. stdout w2 = stdout w @ out)"
        by auto
      from Cons.prems x True Inr q rec have "w' = w1 \<or> w' = w2"
        by (auto simp: Let_def split: sum.splits)
      with w1 both show ?thesis by auto
    qed
  qed
qed

lemma quick_access_cong:
  assumes "\<forall>(k, info)\<in>set fi. folder_path_ok (path_join (lit ''notebooks'') k)"
    and "same_inputs (files a) (files b)"
  shows "fst (quick_access E fi a) = fst (quick_access E fi b)"
  using assms
proof (induction fi arbitrary: a b)
  case Nil
  then show ?case by simp
next
  case (Cons x fi)
  obtain k info where x: "x = (k, info)" by (cases x)
  let ?fp = "path_join (lit ''notebooks'') k"
  from Cons.prems(1) x have ok: "folder_path_ok ?fp"
    and rest: "\<forall>(k, info)\<in>set fi. folder_path_ok (path_join (lit ''notebooks'') k)" by auto
  note si = Cons.prems(2)
  note no = folder_path_not_output[OF ok]
  have ex: "exists (files a) ?fp = exists (files b) ?fp"
    using same_inputs_exists[OF si no] .
  show ?case
  proof (cases "exists (files a) ?fp")
    case False
    with ex x Cons.IH[OF rest si] show ?thesis by simp
  next
    case True
    show ?thesis
    proof (cases "listdir (files a) ?fp")
      case (Inl e)
      with listdir_same(2)[OF si no, of e] have "listdir (files b) ?fp = Inl e" by simp
      with Inl True ex x show ?thesis by simp
    next
      case (Inr xs)
      with listdir_same(1)[OF si no] obtain ys where ys: "listdir (files b) ?fp = Inr ys" by blast
      let ?P = "\<lambda>f. py_endswith f (lit ''.ipynb'')"
      let ?ns = "sort (filter ?P xs)"
      have ns: "sort (filter ?P ys) = ?ns"
        using sorted_listing_eq[OF si no Inr ys] by simp
      have "\<forall>n\<in>set ?ns. map_of (files a) (path_join ?fp n) = map_of (files b) (path_join ?fp n)"
        using si ipynb_path_not_output by (auto simp: same_inputs_def)
      moreover have "\<forall>p. hd p = 100 \<longrightarrow> map_of (files a) p = map_of (files b) p"
        using same_inputs_docs[OF si] by blast
      ultimately have links: "fst (quick_links E ?fp ?ns a) = fst (quick_links E ?fp ?ns b)"
        by (rule quick_links_cong)
      obtain ra a1 where qa: "quick_links E ?fp ?ns a = (ra, a1)" by (cases "quick_links E ?fp ?ns a")
      obtain rb b1 where qb: "quick_links E ?fp ?ns b = (rb, b1)" by (cases "quick_links E ?fp ?ns b")
      from links qa qb have rab: "rb = ra" by simp
      from quick_links_world[OF qa] quick_links_world[OF qb] si
      have "same_inputs (files a1) (files b1)" by simp
      note ih = Cons.IH[OF rest this]
      obtain r2 a2 where ra2: "quick_access E fi a1 = (r2, a2)" by (cases "quick_access E fi a1")
      with ih obtain b2 where rb2: "quick_access E fi b1 = (r2, b2)" by (cases "quick_access E fi b1") auto
      from True ex x Inr ys ns qa qb rab ra2 rb2 show ?thesis
        by (auto simp: Let_def split: sum.splits)
    qed
  qed
qed

lemma technical_notebooks_cong:
  assumes "\<forall>(k, info)\<in>set fi. folder_path_ok (path_join (lit ''notebooks'') k)"
    and "same_inputs a b"
  shows "technical_notebooks a fi = technical_notebooks b fi"
  using assms(1)
proof (induction fi)
  case Nil
  then show ?case by simp
next
  case (Cons x fi)
  obtain k info where x: "x = (k, info)" by (cases x)
  from Cons.prems x have ok: "folder_path_ok (path_join (lit ''notebooks'') k)" by auto
  from same_inputs_exists[OF assms(2) folder_path_not_output[OF ok]] Cons x show ?case by auto
qed


lemma folder_info_paths_ok:
  "\<forall>(k, info)\<in>set folder_info. folder_path_ok (path_join (lit ''notebooks'') k)"
  by (simp add: folder_info_def folder_path_ok_def path_join_def py_startswith_def py_endswith_def lit_def)

lemma main_readme_output: "output_like (lit ''NOTEBOOKS_README.md'')"
  by (simp add: output_like_def lit_def)

lemma notebooks_not_output: "\<not> output_like (lit ''notebooks'')"
  by (simp add: output_like_def lit_def)

lemma gmr_fail:
  assumes "fst (quick_access E folder_info w) = Inl e"
  shows "files (fst (generate_main_readme E w)) = files w \<and> snd (generate_main_readme E w) = Some e"
proof -
  obtain r w1 where q: "quick_access E folder_info w = (r, w1)" by (cases "quick_access E folder_info w")
  with assms quick_access_world[OF q] show ?thesis
    by (simp add: generate_main_readme_def)
qed

lemma gmr_ok:
  assumes "fst (quick_access E folder_info w) = Inr quick"
  shows "case open_write (files w) (lit ''NOTEBOOKS_README.md'')
                (py_join [10] (main_readme_body quick (technical_notebooks (files w) folder_info)
                   @ [main_footer (strftime_minute E (now E (ticks w)))]))
                (now E (Suc (ticks w))) of
           Inl e \<Rightarrow> files (fst (generate_main_readme E w)) = files w \<and>
                    snd (generate_main_readme E w) = Some e
         | Inr fs' \<Rightarrow> files (fst (generate_main_readme E w)) = fs' \<and>
                    snd (generate_main_readme E w) = None"
proof -
  obtain r w1 where q: "quick_access E folder_info w = (r, w1)" by (cases "quick_access E folder_info w")
  with assms quick_access_world[OF q] show ?thesis
    by (simp add: generate_main_readme_def Let_def print_def split: sum.splits)
qed

lemma gmr_sim:
  assumes si: "same_inputs (files a) (files b)"
  shows "snd (generate_main_readme E a) = snd (generate_main_readme E b) \<and>
         same_inputs (files (fst (generate_main_readme E a))) (files (fst (generate_main_readme E b))) \<and>
         rewritten E (files a) (files (fst (generate_main_readme E a)))
                   (files b) (files (fst (generate_main_readme E b)))"
proof -
  note q = quick_access_cong[OF folder_info_paths_ok si, of E]
  show ?thesis
  proof (cases "fst (quick_access E folder_info a)")
    case (Inl e)
    with q have "fst (quick_access E folder_info b) = Inl e" by simp
    from gmr_fail[OF Inl] gmr_fail[OF this] si show ?thesis by (simp add: rewritten_same)
  next
    case (Inr quick)
    with q have qb: "fst (quick_access E folder_info b) = Inr quick" by simp
    let ?p = "lit ''NOTEBOOKS_README.md''"
    let ?body = "main_readme_body quick (technical_notebooks (files a) folder_info)"
    have tech: "technical_notebooks (files b) folder_info = technical_notebooks (files a) folder_info"
      using technical_notebooks_cong[OF folder_info_paths_ok si] by simp
    let ?ta = "py_join [10] (?body @ [main_footer (strftime_minute E (now E (ticks a)))])"
    let ?tb = "py_join [10] (?body @ [main_footer (strftime_minute E (now E (ticks b)))])"
    note ga = gmr_ok[OF Inr] and gb = gmr_ok[OF qb, unfolded tech]
    show ?thesis
    proof (cases "open_write (files a) ?p ?ta (now E (Suc (ticks a)))")
      case wa: (Inl e)
      with write_same_failure[OF si] have "open_write (files b) ?p ?tb (now E (Suc (ticks b))) = Inl e"
        by blast
      with wa ga gb si show ?thesis by (simp add: rewritten_same)
    next
      case wa: (Inr a')
      obtain b' where wb: "open_write (files b) ?p ?tb (now E (Suc (ticks b))) = Inr b'"
      proof (cases "open_write (files b) ?p ?tb (now E (Suc (ticks b)))")
        case (Inl e)
        with write_same_failure[OF si] have "open_write (files a) ?p ?ta (now E (Suc (ticks a))) = Inl e"
          by blast
        with wa show ?thesis by simp
      next
        case (Inr b')
        with that show ?thesis .
      qed
      from write_pair[where foot = main_footer, OF si main_readme_output wa wb] have
        "same_inputs a' b' \<and> rewritten E (files a) a' (files b) b'" by simp
      with wa wb ga gb show ?thesis by simp
    qed
  qed
qed

lemma gmr_frame: "same_inputs (files w) (files (fst (generate_main_readme E w)))"
proof (cases "fst (quick_access E folder_info w)")
  case (Inl e)
  from gmr_fail[OF Inl] show ?thesis by (simp add: same_inputs_refl)
next
  case (Inr quick)
  note g = gmr_ok[OF Inr]
  show ?thesis
  proof (cases "open_write (files w) (lit ''NOTEBOOKS_README.md'')
                (py_join [10] (main_readme_body quick (technical_notebooks (files w) folder_info)
                   @ [main_footer (strftime_minute E (now E (ticks w)))]))
                (now E (Suc (ticks w)))")
    case (Inl e)
    with g show ?thesis by (simp add: same_inputs_refl)
  next
    case wr: (Inr fs')
    from write_frame[OF wr main_readme_output] wr g show ?thesis by simp
  qed
qed

lemma files_print_created: "files (print_created base fi w) = files w"
  by (induction fi arbitrary: w) (auto simp: files_print)

lemma main_files:
  "files (fst (main E w)) =
     (let w0 = print ([128640] @ lit '' Generating README files for notebook directories...'') w
      in if \<not> exists (files w) (lit ''notebooks'') then files w
         else (case fst (process_folders E (lit ''notebooks'') folder_info 0 w0) of
                 Inl e \<Rightarrow> files (snd (process_folders E (lit ''notebooks'') folder_info 0 w0))
               | Inr n \<Rightarrow> files (fst (generate_main_readme E (snd (process_folders E (lit ''notebooks'') folder_info 0 w0))))))"
  by (simp add: main_def Let_def files_print files_print_created case_prod_beta split: sum.splits option.splits)

lemma main_status:
  "snd (main E w) =
     (let w0 = print ([128640] @ lit '' Generating README files for notebook directories...'') w
      in if \<not> exists (files w) (lit ''notebooks'') then 1
         else (case fst (process_folders E (lit ''notebooks'') folder_info 0 w0) of
                 Inl e \<Rightarrow> 1
               | Inr n \<Rightarrow> (case snd (generate_main_readme E (snd (process_folders E (lit ''notebooks'') folder_info 0 w0))) of
                            Some e \<Rightarrow> 1 | None \<Rightarrow> 0)))"
  by (simp add: main_def Let_def files_print case_prod_beta split: sum.splits option.splits)


lemma main_sim:
  assumes si: "same_inputs (files a) (files b)"
  shows "snd (main E a) = snd (main E b) \<and>
         rewritten E (files a) (files (fst (main E a))) (files b) (files (fst (main E b)))"
proof (cases "exists (files a) (lit ''notebooks'')")
  case False
  with same_inputs_exists[OF si notebooks_not_output] show ?thesis
    by (simp add: main_files main_status rewritten_same)
next
  case True
  with same_inputs_exists[OF si notebooks_not_output] have tb: "exists (files b) (lit ''notebooks'')" by simp
  let ?l = "[128640] @ lit '' Generating README files for notebook directories...''"
  let ?pa = "process_folders E (lit ''notebooks'') folder_info 0 (print ?l a)"
  let ?pb = "process_folders E (lit ''notebooks'') folder_info 0 (print ?l b)"
  have "same_inputs (files (print ?l a)) (files (print ?l b))" using si by (simp add: files_print)
  from process_folders_sim[OF folder_info_paths_ok this, of E 0]
  have pf: "fst ?pa = fst ?pb" and s1: "same_inputs (files (snd ?pa)) (files (snd ?pb))"
    and r1: "rewritten E (files a) (files (snd ?pa)) (files b) (files (snd ?pb))"
    by (simp_all add: files_print)
  show ?thesis
  proof (cases "fst ?pa")
    case (Inl e)
    with pf have "fst ?pb = Inl e" by simp
    with Inl True tb r1 show ?thesis by (simp add: main_files main_status)
  next
    case (Inr n)
    with pf have nb: "fst ?pb = Inr n" by simp
    note g = gmr_sim[OF s1, of E]
    from g have r2: "rewritten E (files (snd ?pa)) (files (fst (generate_main_readme E (snd ?pa))))
                       (files (snd ?pb)) (files (fst (generate_main_readme E (snd ?pb))))" by simp
    note r = rewritten_trans[OF r1 r2]
    from g have "snd (generate_main_readme E (snd ?pa)) = snd (generate_main_readme E (snd ?pb))" by simp
    with Inr nb True tb r show ?thesis by (simp add: main_files main_status)
  qed
qed

lemma main_frame: "same_inputs (files w) (files (fst (main E w)))"
proof (cases "exists (files w) (lit ''notebooks'')")
  case False
  then show ?thesis by (simp add: main_files same_inputs_refl)
next
  case True
  let ?l = "[128640] @ lit '' Generating README files for notebook directories...''"
  let ?p = "process_folders E (lit ''notebooks'') folder_info 0 (print ?l w)"
  from process_folders_frame[OF folder_info_paths_ok, of "print ?l w" E 0]
  have f1: "same_inputs (files w) (files (snd ?p))" by (simp add: files_print)
  show ?thesis
  proof (cases "fst ?p")
    case (Inl e)
    with True f1 show ?thesis by (simp add: main_files)
  next
    case (Inr n)
    from same_inputs_trans[OF f1 gmr_frame[of "snd ?p" E]] Inr True show ?thesis
      by (simp add: main_files)
  qed
qed
























text \<open>
  Claim C8.  Run \<open>main\<close>, and run it again on the world the first run left.  The exit
  status is the same, and every path either holds after the second run what it held
  after the first, or holds after both runs a document with the same lines before the
  footer and the same footer around a formatted reading of the clock: the two documents
  differ in the stamp of their last line only.
\<close>

theorem second_run_differs_in_stamps_only:
  assumes "main E w0 = (w1, s1)" and "main E w1 = (w2, s2)"
  shows "s2 = s1 \<and>
         (\<forall>p. map_of (files w2) p = map_of (files w1) p \<or>
              (\<exists>body foot ka kb ta tb.
                 (foot = folder_footer \<or> foot = main_footer) \<and>
                 map_of (files w1) p =
                   Some (File (py_join [10] (body @ [foot (strftime_minute E (now E ka))])) ta) \<and>
                 map_of (files w2) p =
                   Some (File (py_join [10] (body @ [foot (strftime_minute E (now E kb))])) tb)))"
proof -
  from main_frame[of w0 E] assms(1) have "same_inputs (files w0) (files w1)" by simp
  from main_sim[OF this, of E] assms
  have s: "s1 = s2" and r: "rewritten E (files w0) (files w1) (files w1) (files w2)" by simp_all
  show ?thesis
  proof (intro conjI allI)
    show "s2 = s1" using s by simp
  next
    fix p
    from r have "map_of (files w1) p = map_of (files w0) p \<and> map_of (files w2) p = map_of (files w1) p \<or>
                 stamped E (map_of (files w1) p) (map_of (files w2) p)"
      unfolding rewritten_def ..
    then show "map_of (files w2) p = map_of (files w1) p \<or>
              (\<exists>body foot ka kb ta tb.
                 (foot = folder_footer \<or> foot = main_footer) \<and>
                 map_of (files w1) p =
                   Some (File (py_join [10] (body @ [foot (strftime_minute E (now E ka))])) ta) \<and>
                 map_of (files w2) p =
                   Some (File (py_join [10] (body @ [foot (strftime_minute E (now E kb))])) tb))"
      unfolding stamped_def by blast
  qed
qed

lemma folder_paths:
  "path_join (lit ''notebooks'') (lit ''exploratory_analysis'') = lit ''notebooks/exploratory_analysis''"
  "path_join (lit ''notebooks'') (lit ''model_training'') = lit ''notebooks/model_training''"
  "path_join (lit ''notebooks'') (lit ''model_evaluation'') = lit ''notebooks/model_evaluation''"
  "path_join (lit ''notebooks'') (lit ''results_visualization'') = lit ''notebooks/results_visualization''"
  by (simp_all add: path_join_def py_startswith_def py_endswith_def lit_def)

lemma no_folders:
  assumes "map_of fs (lit ''notebooks/exploratory_analysis'') = None"
    "map_of fs (lit ''notebooks/model_training'') = None"
    "map_of fs (lit ''notebooks/model_evaluation'') = None"
    "map_of fs (lit ''notebooks/results_visualization'') = None"
  shows "process_folders E (lit ''notebooks'') folder_info 0 \<lparr>files = fs, stdout = out, ticks = k\<rparr> =
           (Inr 0, \<lparr>files = fs, stdout = out @ folder_warnings, ticks = k\<rparr>)"
    and "quick_access E folder_info \<lparr>files = fs, stdout = out, ticks = k\<rparr> =
           (Inr [], \<lparr>files = fs, stdout = out, ticks = k\<rparr>)"
    and "technical_notebooks fs folder_info = []"
  using assms
  by (simp_all add: folder_info_def exists_def folder_paths print_def folder_warnings_def)

lemma ticks_print_created: "ticks (print_created base fi w) = ticks w"
  by (induction fi arbitrary: w) (auto simp: print_def)

lemma run_without_folders:
  assumes nf: "map_of fs (lit ''notebooks/exploratory_analysis'') = None"
    "map_of fs (lit ''notebooks/model_training'') = None"
    "map_of fs (lit ''notebooks/model_evaluation'') = None"
    "map_of fs (lit ''notebooks/results_visualization'') = None"
    and base: "map_of fs (lit ''notebooks'') = Some (Dir t)"
    and nd: "\<not> is_dir fs (lit ''NOTEBOOKS_README.md'')"
  shows "snd (main (demo_env nb) \<lparr>files = fs, stdout = out, ticks = k\<rparr>) = 0"
    and "files (fst (main (demo_env nb) \<lparr>files = fs, stdout = out, ticks = k\<rparr>)) =
           (lit ''NOTEBOOKS_README.md'',
            File (py_join [10] (main_readme_body [] [] @ [main_footer (lit ''2024-01-01 00:0'' @ [48 + k])])) (Suc k))
           # filter (\<lambda>(q, n). q \<noteq> lit ''NOTEBOOKS_README.md'') fs"
    and "ticks (fst (main (demo_env nb) \<lparr>files = fs, stdout = out, ticks = k\<rparr>)) = Suc k"
proof -
  let ?E = "demo_env nb"
  let ?l = "[128640] @ lit '' Generating README files for notebook directories...''"
  let ?w = "\<lparr>files = fs, stdout = out, ticks = k\<rparr>"
  let ?w1 = "\<lparr>files = fs, stdout = (out @ [?l]) @ folder_warnings, ticks = k\<rparr>"
  let ?fs' = "(lit ''NOTEBOOKS_README.md'',
            File (py_join [10] (main_readme_body [] [] @ [main_footer (lit ''2024-01-01 00:0'' @ [48 + k])])) (Suc k))
           # filter (\<lambda>(q, n). q \<noteq> lit ''NOTEBOOKS_README.md'') fs"
  have p0: "print ?l ?w = \<lparr>files = fs, stdout = out @ [?l], ticks = k\<rparr>" by (simp add: print_def)
  have p: "process_folders ?E (lit ''notebooks'') folder_info 0 (print ?l ?w) = (Inr 0, ?w1)"
    unfolding p0 by (rule no_folders(1)[OF nf])
  have q: "quick_access ?E folder_info ?w1 = (Inr [], ?w1)" by (rule no_folders(2)[OF nf])
  have tn: "technical_notebooks fs folder_info = []" by (rule no_folders(3)[OF nf])
  have ow: "open_write fs (lit ''NOTEBOOKS_README.md'') c u =
              Inr ((lit ''NOTEBOOKS_README.md'', File c u) # filter (\<lambda>(q, n). q \<noteq> lit ''NOTEBOOKS_README.md'') fs)"
    for c u
    using nd by (auto simp: open_write_def is_dir_def split: option.splits node.splits)
  have g: "generate_main_readme ?E ?w1 =
             (print ([10003] @ lit '' Generated main notebooks README'')
                \<lparr>files = ?fs', stdout = (out @ [?l]) @ folder_warnings, ticks = Suc k\<rparr>, None)"
    by (simp only: generate_main_readme_def q) (simp add: tn ow Let_def demo_env_def)
  have e: "exists (files ?w) (lit ''notebooks'')" using base by (simp add: exists_def)
  from e p g show "snd (main ?E ?w) = 0" by (simp add: main_status)
  from e p g show "files (fst (main ?E ?w)) = ?fs'" by (simp add: main_files files_print)
  from e p g show "ticks (fst (main ?E ?w)) = Suc k"
    by (simp add: main_def Let_def files_print ticks_print_created) (simp add: print_def)
qed

theorem second_run_differs_in_stamps_only_witness:
  "snd (main (demo_env \<lparr>cells = []\<rparr>) world_base_only) = 0 \<and>
   files (fst (main (demo_env \<lparr>cells = []\<rparr>) world_base_only)) =
     [(lit ''NOTEBOOKS_README.md'',
       File (py_join [10] (main_readme_body [] [] @ [main_footer (lit ''2024-01-01 00:00'')])) 1),
      (lit ''notebooks'', Dir 0)] \<and>
   snd (main (demo_env \<lparr>cells = []\<rparr>) (fst (main (demo_env \<lparr>cells = []\<rparr>) world_base_only))) = 0 \<and>
   files (fst (main (demo_env \<lparr>cells = []\<rparr>) (fst (main (demo_env \<lparr>cells = []\<rparr>) world_base_only)))) =
     [(lit ''NOTEBOOKS_README.md'',
       File (py_join [10] (main_readme_body [] [] @ [main_footer (lit ''2024-01-01 00:01'')])) 2),
      (lit ''notebooks'', Dir 0)] \<and>
   (\<forall>p. map_of (files (fst (main (demo_env \<lparr>cells = []\<rparr>) (fst (main (demo_env \<lparr>cells = []\<rparr>) world_base_only))))) p =
          map_of (files (fst (main (demo_env \<lparr>cells = []\<rparr>) world_base_only))) p \<or>
        (\<exists>body foot ka kb ta tb.
           (foot = folder_footer \<or> foot = main_footer) \<and>
           map_of (files (fst (main (demo_env \<lparr>cells = []\<rparr>) world_base_only))) p =
             Some (File (py_join [10] (body @ [foot (strftime_minute (demo_env \<lparr>cells = []\<rparr>) (now (demo_env \<lparr>cells = []\<rparr>) ka))])) ta) \<and>
           map_of (files (fst (main (demo_env \<lparr>cells = []\<rparr>) (fst (main (demo_env \<lparr>cells = []\<rparr>) world_base_only))))) p =
             Some (File (py_join [10] (body @ [foot (strftime_minute (demo_env \<lparr>cells = []\<rparr>) (now (demo_env \<lparr>cells = []\<rparr>) kb))])) tb)))"
proof -
  let ?E = "demo_env \<lparr>cells = []\<rparr>"
  let ?fs0 = "[(lit ''notebooks'', Dir 0)]"
  let ?w1 = "fst (main ?E world_base_only)"
  let ?w2 = "fst (main ?E ?w1)"
  let ?fs1 = "[(lit ''NOTEBOOKS_README.md'',
       File (py_join [10] (main_readme_body [] [] @ [main_footer (lit ''2024-01-01 00:00'')])) 1),
      (lit ''notebooks'', Dir 0)]"
  let ?fs2 = "[(lit ''NOTEBOOKS_README.md'',
       File (py_join [10] (main_readme_body [] [] @ [main_footer (lit ''2024-01-01 00:01'')])) 2),
      (lit ''notebooks'', Dir 0)]"
  have w0: "world_base_only = \<lparr>files = ?fs0, stdout = [], ticks = 0\<rparr>"
    by (simp add: world_base_only_def)
  have a: "map_of ?fs0 (lit ''notebooks/exploratory_analysis'') = None"
    "map_of ?fs0 (lit ''notebooks/model_training'') = None"
    "map_of ?fs0 (lit ''notebooks/model_evaluation'') = None"
    "map_of ?fs0 (lit ''notebooks/results_visualization'') = None"
    "map_of ?fs0 (lit ''notebooks'') = Some (Dir 0)"
    "\<not> is_dir ?fs0 (lit ''NOTEBOOKS_README.md'')"
    by (simp_all add: lit_eq_iff is_dir_def)
  note r1 = run_without_folders[OF a, of "\<lparr>cells = []\<rparr>" "[]" 0, folded w0]
  have s1: "snd (main ?E world_base_only) = 0" by (rule r1(1))
  have f1: "files ?w1 = ?fs1" unfolding r1(2) by (simp add: lit_eq_iff) (simp add: lit_def)
  have t1: "ticks ?w1 = 1" unfolding r1(3) by simp
  have b: "map_of ?fs1 (lit ''notebooks/exploratory_analysis'') = None"
    "map_of ?fs1 (lit ''notebooks/model_training'') = None"
    "map_of ?fs1 (lit ''notebooks/model_evaluation'') = None"
    "map_of ?fs1 (lit ''notebooks/results_visualization'') = None"
    "map_of ?fs1 (lit ''notebooks'') = Some (Dir 0)"
    "\<not> is_dir ?fs1 (lit ''NOTEBOOKS_README.md'')"
    by (simp_all add: lit_eq_iff is_dir_def)
  have w1: "\<lparr>files = ?fs1, stdout = stdout ?w1, ticks = 1\<rparr> = ?w1"
    using f1 t1 by (cases ?w1) simp
  note r2 = run_without_folders[OF b, of "\<lparr>cells = []\<rparr>" "stdout ?w1" 1, unfolded w1]
  have s2: "snd (main ?E ?w1) = 0" by (rule r2(1))
  have f2: "files ?w2 = ?fs2" unfolding r2(2) by (simp add: lit_eq_iff) (simp add: lit_def)
  from second_run_differs_in_stamps_only[of ?E world_base_only ?w1 "snd (main ?E world_base_only)"
        ?w2 "snd (main ?E ?w1)"]
  have c: "\<forall>p. map_of (files ?w2) p = map_of (files ?w1) p \<or>
        (\<exists>body foot ka kb ta tb.
           (foot = folder_footer \<or> foot = main_footer) \<and>
           map_of (files ?w1) p =
             Some (File (py_join [10] (body @ [foot (strftime_minute ?E (now ?E ka))])) ta) \<and>
           map_of (files ?w2) p =
             Some (File (py_join [10] (body @ [foot (strftime_minute ?E (now ?E kb))])) tb))"
    by simp
  show ?thesis by (intro conjI s1 f1 s2 f2 c)
qed

end
